theory Spec2Isabelle
  imports Main "HOL-Library.Word" "HOL-Library.Multiset"
begin

unbundle bit_operations_syntax

section \<open>Value types shared by the validator and the wallet\<close>

text \<open>
  Modelled from the spec: the \<open>types\<close> declarations are not part of the sources that
  are verified here. \<open>Currency\<close> is a non-negative integer of arbitrary precision, so
  \<open>Add\<close> is \<open>+\<close> on \<open>nat\<close> and \<open>Cmp\<close> is the order of \<open>nat\<close>. \<open>BlockHeight\<close> is Go's
  \<open>uint64\<close>: arithmetic on it wraps around. Hashes and identifiers are byte strings.
\<close>

type_synonym byte = "8 word"
type_synonym Currency = nat
type_synonym BlockHeight = "64 word"
type_synonym Hash = "byte list"
type_synonym UnlockHash = Hash
type_synonym SiacoinOutputID = Hash
type_synonym SiafundOutputID = Hash
type_synonym FileContractID = Hash
type_synonym BlockID = Hash
type_synonym OutputID = Hash

record SiaPublicKey =
  Key :: "byte list"

record UnlockConditions =
  Timelock :: BlockHeight
  PublicKeys :: "SiaPublicKey list"
  SignaturesRequired :: "64 word"

record SiacoinOutput =
  sco_Value :: Currency
  sco_UnlockHash :: UnlockHash

record SiafundOutput =
  sfo_Value :: Currency
  sfo_UnlockHash :: UnlockHash
  sfo_ClaimStart :: Currency

record SiacoinInput =
  sci_ParentID :: SiacoinOutputID
  sci_UnlockConditions :: UnlockConditions

record SiafundInput =
  sfi_ParentID :: SiafundOutputID
  sfi_UnlockConditions :: UnlockConditions
  sfi_ClaimUnlockHash :: UnlockHash

record FileContract =
  fc_FileSize :: "64 word"
  fc_FileMerkleRoot :: Hash
  fc_Start :: BlockHeight
  fc_Expiration :: BlockHeight
  fc_Payout :: Currency
  fc_ValidProofOutputs :: "SiacoinOutput list"
  fc_MissedProofOutputs :: "SiacoinOutput list"
  fc_TerminationHash :: UnlockHash

record FileContractTermination =
  fct_ParentID :: FileContractID
  fct_TerminationConditions :: UnlockConditions
  fct_Payouts :: "SiacoinOutput list"

record StorageProof =
  sp_ParentID :: FileContractID
  sp_Segment :: "byte list"
  sp_HashSet :: "Hash list"

record CoveredFields =
  WholeTransaction :: bool
  cf_MinerFees :: "64 word list"
  cf_SiacoinInputs :: "64 word list"
  cf_SiacoinOutputs :: "64 word list"
  cf_FileContracts :: "64 word list"
  cf_FileContractRevisions :: "64 word list"
  cf_StorageProofs :: "64 word list"
  cf_SiafundInputs :: "64 word list"
  cf_SiafundOutputs :: "64 word list"
  cf_ArbitraryData :: "64 word list"
  cf_TransactionSignatures :: "64 word list"

record TransactionSignature =
  sig_ParentID :: Hash
  sig_PublicKeyIndex :: "64 word"
  sig_CoveredFields :: CoveredFields
  sig_Signature :: "byte list"

text \<open>
  One record serves both packages. The validator reads \<open>FileContractTerminations\<close>
  and never \<open>FileContractRevisions\<close>; the wallet's builder appends to
  \<open>FileContractRevisions\<close> and never to \<open>FileContractTerminations\<close>. A revision is kept
  in its encoded form: no function under verification reads its fields.
\<close>

record Transaction =
  SiacoinInputs :: "SiacoinInput list"
  SiacoinOutputs :: "SiacoinOutput list"
  FileContracts :: "FileContract list"
  FileContractTerminations :: "FileContractTermination list"
  FileContractRevisions :: "byte list list"
  StorageProofs :: "StorageProof list"
  SiafundInputs :: "SiafundInput list"
  SiafundOutputs :: "SiafundOutput list"
  MinerFees :: "Currency list"
  ArbitraryData :: "byte list list"
  TransactionSignatures :: "TransactionSignature list"

definition emptyTransaction :: Transaction where
  "emptyTransaction = \<lparr>SiacoinInputs = [], SiacoinOutputs = [], FileContracts = [],
     FileContractTerminations = [], FileContractRevisions = [], StorageProofs = [],
     SiafundInputs = [], SiafundOutputs = [], MinerFees = [], ArbitraryData = [],
     TransactionSignatures = []\<rparr>"

section \<open>The validator (consensus/validtransaction.go)\<close>

text \<open>
  Every \<open>errors.New\<close> of the file and each of its three error variables is a constructor.
  \<open>OtherError\<close> stands for an error of \<open>validSignatures\<close>, which is declared elsewhere;
  \<open>Panic\<close> is a run-time panic (division by zero in \<open>big.Int.Mod\<close>, a missing block of
  the current path).
\<close>

datatype error =
    ErrMissingSiacoinOutput
  | ErrMissingFileContract
  | ErrMissingSiafundOutput
  | ErrProofsAndSiacoinOutputs
  | ErrProofsAndFileContracts
  | ErrProofsAndTerminations
  | ErrProofsAndSiafundOutputs
  | ErrUnlockHashMismatch
  | ErrTimelockNotMet
  | ErrInputsNotEqualOutputs
  | ErrContractStart
  | ErrContractDuration
  | ErrValidProofOutputs
  | ErrMissedProofOutputs
  | ErrTerminationPayouts
  | ErrUnrecognizedContractID
  | ErrNoTriggerBlock
  | ErrUnrecognizedProofContract
  | ErrInvalidStorageProof
  | ErrInvalidSiafundOutput
  | ErrSiafundMismatch
  | OtherError string
  | Panic

text \<open>
  The consensus-state view. Modelled from the spec: the \<open>State\<close> type and its \<open>height()\<close>
  are declared outside the verified file; the view exposes the current height, the
  three tables and the path of block IDs indexed by height.
\<close>

record State =
  height :: BlockHeight
  siacoinOutputs :: "SiacoinOutputID \<rightharpoonup> SiacoinOutput"
  siafundOutputs :: "SiafundOutputID \<rightharpoonup> SiafundOutput"
  fileContracts :: "FileContractID \<rightharpoonup> FileContract"
  currentPath :: "BlockHeight \<rightharpoonup> BlockID"

text \<open>
  The functions the validator calls but that are declared in other packages: the hash
  of unlock conditions, the siafund tax of a contract (a fixed function of its payout),
  \<open>Currency.Sub\<close>, the hash primitive, the number of segments of a file, the Merkle
  segment check and the signature check. They are parameters of the model.
\<close>

record primitives =
  UnlockHash_of :: "UnlockConditions \<Rightarrow> UnlockHash"
  Tax :: "Currency \<Rightarrow> Currency"
  Currency_Sub :: "Currency \<Rightarrow> Currency \<Rightarrow> Currency"
  HashBytes :: "byte list \<Rightarrow> Hash"
  CalculateSegments :: "64 word \<Rightarrow> 64 word"
  VerifySegment :: "byte list \<Rightarrow> Hash list \<Rightarrow> 64 word \<Rightarrow> 64 word \<Rightarrow> Hash \<Rightarrow> bool"
  validSignatures :: "State \<Rightarrow> Transaction \<Rightarrow> error option"

text \<open>A Go \<open>error\<close> result is an \<open>error option\<close>: \<open>None\<close> is \<open>nil\<close>.\<close>

definition FollowsStorageProofRules :: "Transaction \<Rightarrow> error option" where
  "FollowsStorageProofRules t =
     (if length (StorageProofs t) = 0 then None
      else if length (SiacoinOutputs t) \<noteq> 0 then Some ErrProofsAndSiacoinOutputs
      else if length (FileContracts t) \<noteq> 0 then Some ErrProofsAndFileContracts
      else if length (FileContractTerminations t) \<noteq> 0 then Some ErrProofsAndTerminations
      else if length (SiafundOutputs t) \<noteq> 0 then Some ErrProofsAndSiafundOutputs
      else None)"

text \<open>The three loops of \<open>SiacoinOutputSum\<close>, each adding to the running sum.\<close>

definition SiacoinOutputSum :: "Transaction \<Rightarrow> Currency" where
  "SiacoinOutputSum t =
     (let sum1 = fold (\<lambda>fee sum. sum + fee) (MinerFees t) 0;
          sum2 = fold (\<lambda>contract sum. sum + fc_Payout contract) (FileContracts t) sum1;
          sum3 = fold (\<lambda>output sum. sum + sco_Value output) (SiacoinOutputs t) sum2
      in sum3)"

definition validUnlockConditions ::
  "primitives \<Rightarrow> State \<Rightarrow> UnlockConditions \<Rightarrow> UnlockHash \<Rightarrow> error option" where
  "validUnlockConditions P s uc uh =
     (if UnlockHash_of P uc \<noteq> uh then Some ErrUnlockHashMismatch
      else if Timelock uc > height s then Some ErrTimelockNotMet
      else None)"

text \<open>The loop of \<open>validSiacoins\<close> over the inputs, with the running \<open>inputSum\<close>.\<close>

fun validSiacoins_loop ::
  "primitives \<Rightarrow> State \<Rightarrow> SiacoinInput list \<Rightarrow> Currency \<Rightarrow> error + Currency" where
  "validSiacoins_loop P s [] inputSum = Inr inputSum"
| "validSiacoins_loop P s (sci # rest) inputSum =
     (case siacoinOutputs s (sci_ParentID sci) of
        None \<Rightarrow> Inl ErrMissingSiacoinOutput
      | Some sco \<Rightarrow>
          (case validUnlockConditions P s (sci_UnlockConditions sci) (sco_UnlockHash sco) of
             Some err \<Rightarrow> Inl err
           | None \<Rightarrow> validSiacoins_loop P s rest (inputSum + sco_Value sco)))"

definition validSiacoins :: "primitives \<Rightarrow> State \<Rightarrow> Transaction \<Rightarrow> error option" where
  "validSiacoins P s t =
     (case validSiacoins_loop P s (SiacoinInputs t) 0 of
        Inl err \<Rightarrow> Some err
      | Inr inputSum \<Rightarrow>
          if inputSum \<noteq> SiacoinOutputSum t then Some ErrInputsNotEqualOutputs else None)"

text \<open>The body of the loop of \<open>validFileContracts\<close> for one contract.\<close>

definition validFileContract :: "primitives \<Rightarrow> State \<Rightarrow> FileContract \<Rightarrow> error option" where
  "validFileContract P s fc =
     (if fc_Start fc \<le> height s then Some ErrContractStart
      else if fc_Expiration fc \<le> fc_Start fc then Some ErrContractDuration
      else
        let validProofOutputSum =
              fold (\<lambda>output sum. sum + sco_Value output) (fc_ValidProofOutputs fc) 0;
            missedProofOutputSum =
              fold (\<lambda>output sum. sum + sco_Value output) (fc_MissedProofOutputs fc) 0;
            outputPortion = Currency_Sub P (fc_Payout fc) (Tax P (fc_Payout fc))
        in if validProofOutputSum \<noteq> outputPortion then Some ErrValidProofOutputs
           else if missedProofOutputSum \<noteq> fc_Payout fc then Some ErrMissedProofOutputs
           else None)"

fun validFileContracts_loop ::
  "primitives \<Rightarrow> State \<Rightarrow> FileContract list \<Rightarrow> error option" where
  "validFileContracts_loop P s [] = None"
| "validFileContracts_loop P s (fc # rest) =
     (case validFileContract P s fc of
        Some err \<Rightarrow> Some err
      | None \<Rightarrow> validFileContracts_loop P s rest)"

definition validFileContracts :: "primitives \<Rightarrow> State \<Rightarrow> Transaction \<Rightarrow> error option" where
  "validFileContracts P s t = validFileContracts_loop P s (FileContracts t)"

fun validFileContractTerminations_loop ::
  "primitives \<Rightarrow> State \<Rightarrow> FileContractTermination list \<Rightarrow> error option" where
  "validFileContractTerminations_loop P s [] = None"
| "validFileContractTerminations_loop P s (fct # rest) =
     (case fileContracts s (fct_ParentID fct) of
        None \<Rightarrow> Some ErrMissingFileContract
      | Some fc \<Rightarrow>
          (case validUnlockConditions P s (fct_TerminationConditions fct)
                  (fc_TerminationHash fc) of
             Some err \<Rightarrow> Some err
           | None \<Rightarrow>
               let payoutSum = fold (\<lambda>payout sum. sum + sco_Value payout) (fct_Payouts fct) 0
               in if payoutSum \<noteq> fc_Payout fc then Some ErrTerminationPayouts
                  else validFileContractTerminations_loop P s rest))"

definition validFileContractTerminations ::
  "primitives \<Rightarrow> State \<Rightarrow> Transaction \<Rightarrow> error option" where
  "validFileContractTerminations P s t =
     validFileContractTerminations_loop P s (FileContractTerminations t)"

text \<open>\<open>big.Int.SetBytes\<close>: the bytes read as a big-endian unsigned integer.\<close>

definition SetBytes :: "byte list \<Rightarrow> int" where
  "SetBytes bs = fold (\<lambda>b acc. acc * 256 + uint b) bs 0"

text \<open>
  \<open>storageProofSegment\<close>. The trigger height is \<open>fc.Start - 1\<close> on \<open>uint64\<close>.
  \<open>numSegments\<close> is the \<open>int64\<close> conversion of an unsigned count; \<open>big.Int.Mod\<close> is the
  Euclidean modulus and panics on a zero divisor; \<open>Uint64\<close> keeps the low 64 bits.
\<close>

definition storageProofSegment ::
  "primitives \<Rightarrow> State \<Rightarrow> FileContractID \<Rightarrow> error + 64 word" where
  "storageProofSegment P s fcid =
     (case fileContracts s fcid of
        None \<Rightarrow> Inl ErrUnrecognizedContractID
      | Some fc \<Rightarrow>
          let triggerHeight = fc_Start fc - 1
          in if triggerHeight > height s then Inl ErrNoTriggerBlock
             else
               (case currentPath s triggerHeight of
                  None \<Rightarrow> Inl Panic
                | Some triggerID \<Rightarrow>
                    let seed = HashBytes P (triggerID @ fcid);
                        numSegments = sint (CalculateSegments P (fc_FileSize fc));
                        seedInt = SetBytes seed
                    in if numSegments = 0 then Inl Panic
                       else Inr (word_of_int (seedInt mod \<bar>numSegments\<bar>))))"

fun validStorageProofs_loop ::
  "primitives \<Rightarrow> State \<Rightarrow> StorageProof list \<Rightarrow> error option" where
  "validStorageProofs_loop P s [] = None"
| "validStorageProofs_loop P s (sp # rest) =
     (case fileContracts s (sp_ParentID sp) of
        None \<Rightarrow> Some ErrUnrecognizedProofContract
      | Some fc \<Rightarrow>
          (case storageProofSegment P s (sp_ParentID sp) of
             Inl err \<Rightarrow> Some err
           | Inr segmentIndex \<Rightarrow>
               let verified = VerifySegment P (sp_Segment sp) (sp_HashSet sp)
                     (CalculateSegments P (fc_FileSize fc)) segmentIndex (fc_FileMerkleRoot fc)
               in if \<not> verified then Some ErrInvalidStorageProof
                  else validStorageProofs_loop P s rest))"

definition validStorageProofs :: "primitives \<Rightarrow> State \<Rightarrow> Transaction \<Rightarrow> error option" where
  "validStorageProofs P s t = validStorageProofs_loop P s (StorageProofs t)"

fun validSiafunds_inputs ::
  "primitives \<Rightarrow> State \<Rightarrow> SiafundInput list \<Rightarrow> Currency \<Rightarrow> error + Currency" where
  "validSiafunds_inputs P s [] siafundInputSum = Inr siafundInputSum"
| "validSiafunds_inputs P s (sfi # rest) siafundInputSum =
     (case siafundOutputs s (sfi_ParentID sfi) of
        None \<Rightarrow> Inl ErrMissingSiafundOutput
      | Some sfo \<Rightarrow>
          (case validUnlockConditions P s (sfi_UnlockConditions sfi) (sfo_UnlockHash sfo) of
             Some err \<Rightarrow> Inl err
           | None \<Rightarrow> validSiafunds_inputs P s rest (siafundInputSum + sfo_Value sfo)))"

fun validSiafunds_outputs :: "SiafundOutput list \<Rightarrow> Currency \<Rightarrow> error + Currency" where
  "validSiafunds_outputs [] siafundOutputSum = Inr siafundOutputSum"
| "validSiafunds_outputs (sfo # rest) siafundOutputSum =
     (if sfo_ClaimStart sfo \<noteq> 0 then Inl ErrInvalidSiafundOutput
      else validSiafunds_outputs rest (siafundOutputSum + sfo_Value sfo))"

definition validSiafunds :: "primitives \<Rightarrow> State \<Rightarrow> Transaction \<Rightarrow> error option" where
  "validSiafunds P s t =
     (case validSiafunds_inputs P s (SiafundInputs t) 0 of
        Inl err \<Rightarrow> Some err
      | Inr siafundInputSum \<Rightarrow>
          (case validSiafunds_outputs (SiafundOutputs t) 0 of
             Inl err \<Rightarrow> Some err
           | Inr siafundOutputSum \<Rightarrow>
               if siafundOutputSum \<noteq> siafundInputSum then Some ErrSiafundMismatch
               else None))"

definition validTransaction :: "primitives \<Rightarrow> State \<Rightarrow> Transaction \<Rightarrow> error option" where
  "validTransaction P s t =
     (case FollowsStorageProofRules t of
        Some err \<Rightarrow> Some err
      | None \<Rightarrow>
     (case validSiacoins P s t of
        Some err \<Rightarrow> Some err
      | None \<Rightarrow>
     (case validFileContracts P s t of
        Some err \<Rightarrow> Some err
      | None \<Rightarrow>
     (case validFileContractTerminations P s t of
        Some err \<Rightarrow> Some err
      | None \<Rightarrow>
     (case validStorageProofs P s t of
        Some err \<Rightarrow> Some err
      | None \<Rightarrow>
     (case validSiafunds P s t of
        Some err \<Rightarrow> Some err
      | None \<Rightarrow> validSignatures P s t))))))"

section \<open>Contract-manager persistence (modules/host/contractmanager/persist.go)\<close>

text \<open>
  A Go slice is a reference to a backing array: two slices made from the same array see
  each other's writes. \<open>savedStorageFolder\<close> puts the folder's \<open>usage\<close> slice itself into
  the snapshot, so the usage bitmaps live in an explicit store, a slice is the address
  of its array, and a bitmap is read through the store.
\<close>

type_synonym sectorID = "byte list"
type_synonym ref = nat
type_synonym store = "ref \<Rightarrow> 64 word list"

datatype cm_error = ErrReadMetadata | IndexOutOfRange

record savedStorageFolder =
  ssf_Index :: "16 word"
  ssf_Path :: string
  ssf_Usage :: ref

record savedSettings =
  SectorSalt :: Hash
  StorageFolders :: "savedStorageFolder list"

record sectorLocation =
  sl_index :: nat
  sl_storageFolder :: "16 word"
  sl_count :: "16 word"

text \<open>
  A metadata file is its contents, or a handle whose reads fail. Modelled from the
  spec: the \<open>storageFolder\<close> and \<open>ContractManager\<close> types, the two constants,
  \<open>readFullMetadata\<close>, \<open>usageSectors\<close>, \<open>setUsage\<close> and \<open>clearUsage\<close> are declared in
  files that are not under verification. The spec gives the folder and location
  fields, a slot index as an unsigned integer, \<open>sectorMetadataDiskSize = 14\<close>, 64 slots
  per word of the bitmap with bit \<open>k\<close> of word \<open>w\<close> for slot \<open>64 * w + k\<close>,
  \<open>usageSectors\<close> as the sorted list of the set bit positions, and \<open>setUsage\<close>,
  \<open>clearUsage\<close> as bit operations on the folder's bitmap. The folders of the manager
  (a Go map, ranged over in no fixed order) are listed in the order the loop visits
  them, and so are the queued sectors of a folder.
\<close>

datatype fileHandle = File "byte list" | FailingFile

record storageFolder =
  atomicFailedReads :: "64 word"
  atomicSuccessfulReads :: "64 word"
  sf_index :: "16 word"
  sf_path :: string
  sf_usage :: ref
  sf_queuedSectors :: "(sectorID \<times> 32 word) list"
  sf_metadataFile :: fileHandle
  sf_sectors :: "64 word"

record ContractManager =
  sectorSalt :: Hash
  storageFolders :: "storageFolder list"
  sectorLocations :: "sectorID \<rightharpoonup> sectorLocation"
  heap :: store

definition storageFolderGranularity :: nat where
  "storageFolderGranularity = 64"

definition sectorMetadataDiskSize :: nat where
  "sectorMetadataDiskSize = 14"

definition usageSectors :: "64 word list \<Rightarrow> nat list" where
  "usageSectors usage =
     concat (map (\<lambda>i. map (\<lambda>j. i * storageFolderGranularity + j)
                          (filter (\<lambda>j. bit (usage ! i) j) [0..<storageFolderGranularity]))
                 [0..<length usage])"

definition clearUsage :: "store \<Rightarrow> storageFolder \<Rightarrow> 32 word \<Rightarrow> cm_error + store" where
  "clearUsage h sf sectorIndex =
     (let usage = h (sf_usage sf);
          usageElement = unat sectorIndex div storageFolderGranularity;
          bitIndex = unat sectorIndex mod storageFolderGranularity
      in if usageElement < length usage
         then Inr (h(sf_usage sf := usage[usageElement := unset_bit bitIndex (usage ! usageElement)]))
         else Inl IndexOutOfRange)"

definition setUsage :: "store \<Rightarrow> storageFolder \<Rightarrow> 32 word \<Rightarrow> cm_error + store" where
  "setUsage h sf sectorIndex =
     (let usage = h (sf_usage sf);
          usageElement = unat sectorIndex div storageFolderGranularity;
          bitIndex = unat sectorIndex mod storageFolderGranularity
      in if usageElement < length usage
         then Inr (h(sf_usage sf := usage[usageElement := set_bit bitIndex (usage ! usageElement)]))
         else Inl IndexOutOfRange)"

definition readFullMetadata :: "fileHandle \<Rightarrow> nat \<Rightarrow> cm_error + byte list" where
  "readFullMetadata f numSectors =
     (case f of
        FailingFile \<Rightarrow> Inl ErrReadMetadata
      | File contents \<Rightarrow>
          if length contents < numSectors * sectorMetadataDiskSize then Inl ErrReadMetadata
          else Inr (take (numSectors * sectorMetadataDiskSize) contents))"

text \<open>\<open>savedStorageFolder\<close>: the snapshot's \<open>Usage\<close> is the folder's own slice.\<close>

definition savedStorageFolder_of :: "storageFolder \<Rightarrow> savedStorageFolder" where
  "savedStorageFolder_of sf =
     \<lparr>ssf_Index = sf_index sf, ssf_Path = sf_path sf, ssf_Usage = sf_usage sf\<rparr>"

text \<open>The two loops of \<open>savedSettings\<close> over the queued sectors of one folder.\<close>

fun clearQueued :: "store \<Rightarrow> storageFolder \<Rightarrow> (sectorID \<times> 32 word) list \<Rightarrow> cm_error + store" where
  "clearQueued h sf [] = Inr h"
| "clearQueued h sf ((sid, sectorIndex) # rest) =
     (case clearUsage h sf sectorIndex of
        Inl err \<Rightarrow> Inl err
      | Inr h' \<Rightarrow> clearQueued h' sf rest)"

fun setQueued :: "store \<Rightarrow> storageFolder \<Rightarrow> (sectorID \<times> 32 word) list \<Rightarrow> cm_error + store" where
  "setQueued h sf [] = Inr h"
| "setQueued h sf ((sid, sectorIndex) # rest) =
     (case setUsage h sf sectorIndex of
        Inl err \<Rightarrow> Inl err
      | Inr h' \<Rightarrow> setQueued h' sf rest)"

fun savedSettings_loop ::
  "storageFolder list \<Rightarrow> savedStorageFolder list \<Rightarrow> store \<Rightarrow>
     cm_error + (savedStorageFolder list \<times> store)" where
  "savedSettings_loop [] ssfs h = Inr (ssfs, h)"
| "savedSettings_loop (sf # rest) ssfs h =
     (case clearQueued h sf (sf_queuedSectors sf) of
        Inl err \<Rightarrow> Inl err
      | Inr h1 \<Rightarrow>
          let ssfs' = ssfs @ [savedStorageFolder_of sf]
          in (case setQueued h1 sf (sf_queuedSectors sf) of
                Inl err \<Rightarrow> Inl err
              | Inr h2 \<Rightarrow> savedSettings_loop rest ssfs' h2))"

text \<open>
  \<open>savedSettings\<close> returns the snapshot and leaves the manager with the store as the
  loops left it. What the caller then reads in the snapshot is read in that store.
\<close>

definition savedSettings_of :: "ContractManager \<Rightarrow> cm_error + (savedSettings \<times> ContractManager)" where
  "savedSettings_of cm =
     (case savedSettings_loop (storageFolders cm) [] (heap cm) of
        Inl err \<Rightarrow> Inl err
      | Inr (ssfs, h) \<Rightarrow>
          Inr (\<lparr>SectorSalt = sectorSalt cm, StorageFolders = ssfs\<rparr>, cm\<lparr>heap := h\<rparr>))"

text \<open>\<open>binary.LittleEndian.Uint16\<close> of a two-byte slice.\<close>

definition LittleEndian_Uint16 :: "byte list \<Rightarrow> 16 word" where
  "LittleEndian_Uint16 b = ucast (b ! 0) OR push_bit 8 (ucast (b ! 1))"

text \<open>
  The inner loop of \<open>loadSectorLocations\<close> over the slots in use: the two slice
  expressions panic when their upper bound is past the end of the bytes read.
\<close>

fun loadSectorLocations_sectors ::
  "byte list \<Rightarrow> 16 word \<Rightarrow> nat list \<Rightarrow> (sectorID \<rightharpoonup> sectorLocation) \<Rightarrow> 64 word \<Rightarrow>
     cm_error + ((sectorID \<rightharpoonup> sectorLocation) \<times> 64 word)" where
  "loadSectorLocations_sectors sectorLookupBytes folder [] locations sectors =
     Inr (locations, sectors)"
| "loadSectorLocations_sectors sectorLookupBytes folder (sectorIndex # rest) locations sectors =
     (let readHead = sectorMetadataDiskSize * sectorIndex
      in if readHead + 12 > length sectorLookupBytes then Inl IndexOutOfRange
         else if readHead + 14 > length sectorLookupBytes then Inl IndexOutOfRange
         else
           let sid = take 12 (drop readHead sectorLookupBytes);
               count = LittleEndian_Uint16 (take 2 (drop (readHead + 12) sectorLookupBytes));
               sl = \<lparr>sl_index = sectorIndex, sl_storageFolder = folder, sl_count = count\<rparr>
           in loadSectorLocations_sectors sectorLookupBytes folder rest
                (locations(sid \<mapsto> sl)) (sectors + 1))"

fun loadSectorLocations_loop ::
  "store \<Rightarrow> storageFolder list \<Rightarrow> (sectorID \<rightharpoonup> sectorLocation) \<Rightarrow>
     cm_error + (storageFolder list \<times> (sectorID \<rightharpoonup> sectorLocation))" where
  "loadSectorLocations_loop h [] locations = Inr ([], locations)"
| "loadSectorLocations_loop h (sf # rest) locations =
     (case readFullMetadata (sf_metadataFile sf)
             (length (h (sf_usage sf)) * storageFolderGranularity) of
        Inl err \<Rightarrow>
          (case loadSectorLocations_loop h rest locations of
             Inl e \<Rightarrow> Inl e
           | Inr (sfs, locations') \<Rightarrow>
               Inr (sf\<lparr>atomicFailedReads := atomicFailedReads sf + 1\<rparr> # sfs, locations'))
      | Inr sectorLookupBytes \<Rightarrow>
          (case loadSectorLocations_sectors sectorLookupBytes (sf_index sf)
                  (usageSectors (h (sf_usage sf))) locations (sf_sectors sf) of
             Inl e \<Rightarrow> Inl e
           | Inr (locations1, sectors) \<Rightarrow>
               (case loadSectorLocations_loop h rest locations1 of
                  Inl e \<Rightarrow> Inl e
                | Inr (sfs, locations') \<Rightarrow>
                    Inr (sf\<lparr>atomicSuccessfulReads := atomicSuccessfulReads sf + 1,
                            sf_sectors := sectors\<rparr> # sfs, locations'))))"

definition loadSectorLocations :: "ContractManager \<Rightarrow> cm_error + ContractManager" where
  "loadSectorLocations cm =
     (case loadSectorLocations_loop (heap cm) (storageFolders cm) (sectorLocations cm) of
        Inl err \<Rightarrow> Inl err
      | Inr (sfs, locations) \<Rightarrow> Inr (cm\<lparr>storageFolders := sfs, sectorLocations := locations\<rparr>))"

section \<open>The wallet's transaction builder (modules/wallet/transactionbuilder.go)\<close>

text \<open>
  The errors of the builder. \<open>ExternalError\<close> is an error handed up by a function of
  another file (the dust threshold, a database read, a decoding); \<open>IndexPanic\<close> is an
  index out of range.
\<close>

datatype wallet_error =
    errBuilderAlreadySigned
  | errDustOutput
  | errOutputTimelock
  | errSpendHeightTooHigh
  | ErrIncompleteTransactions
  | ErrLowBalance
  | errCannotSignInput
  | ExternalError string
  | IndexPanic

type_synonym SecretKey = "byte list"

record spendableKey =
  sk_UnlockConditions :: UnlockConditions
  SecretKeys :: "SecretKey list"

text \<open>
  What the builder uses from other packages, as parameters: the respend timeout, the
  hash of unlock conditions, the output IDs of a transaction, the key derived from the
  primary seed at an index, the public key of a secret key, the signature hash and the
  signing primitive.
\<close>

record wallet_primitives =
  RespendTimeout :: BlockHeight
  wUnlockHash :: "UnlockConditions \<Rightarrow> UnlockHash"
  SiacoinOutputID_of :: "Transaction \<Rightarrow> 64 word \<Rightarrow> SiacoinOutputID"
  SiafundOutputID_of :: "Transaction \<Rightarrow> 64 word \<Rightarrow> SiafundOutputID"
  generateSpendableKey :: "nat \<Rightarrow> spendableKey"
  PublicKey :: "SecretKey \<Rightarrow> byte list"
  SigHash :: "Transaction \<Rightarrow> nat \<Rightarrow> Hash"
  SignHash :: "Hash \<Rightarrow> SecretKey \<Rightarrow> byte list"

text \<open>
  The wallet as the builder sees it. Modelled from the spec: the \<open>Wallet\<close> type and its
  database helpers are declared in other files. The database is a value: the two
  output buckets in key order, each entry a key and a value that decode or do not
  (\<open>None\<close>); the table of recently spent outputs; the consensus height (absent in an
  uninitialised database); the progress of the primary seed. \<open>dustThreshold\<close> is the
  result of \<open>DustThreshold()\<close>, an error message or the threshold.
\<close>

record Wallet =
  dustThreshold :: "string + Currency"
  db_ConsensusHeight :: "BlockHeight option"
  db_SiacoinOutputs :: "(SiacoinOutputID option \<times> SiacoinOutput option) list"
  db_SiafundOutputs :: "(SiafundOutputID option \<times> SiafundOutput option) list"
  db_SpentOutputs :: "OutputID \<rightharpoonup> BlockHeight"
  db_PrimarySeedProgress :: nat
  unconfirmedProcessedTransactions :: "Transaction list"
  keys :: "UnlockHash \<rightharpoonup> spendableKey"

record transactionBuilder =
  parents :: "Transaction list"
  signed_tb :: bool
  transaction :: Transaction
  newParents :: "nat list"
  siacoinInputs :: "nat list"
  siafundInputs :: "nat list"
  transactionSignatures :: "nat list"

text \<open>Reading a Go map at a missing key gives the zero value.\<close>

definition zeroSpendableKey :: spendableKey where
  "zeroSpendableKey =
     \<lparr>sk_UnlockConditions = \<lparr>Timelock = 0, PublicKeys = [], SignaturesRequired = 0\<rparr>,
      SecretKeys = []\<rparr>"

definition keysLookup :: "Wallet \<Rightarrow> UnlockHash \<Rightarrow> spendableKey" where
  "keysLookup w uh = (case keys w uh of None \<Rightarrow> zeroSpendableKey | Some k \<Rightarrow> k)"

definition DustThreshold :: "Wallet \<Rightarrow> wallet_error + Currency" where
  "DustThreshold w = (case dustThreshold w of Inl msg \<Rightarrow> Inl (ExternalError msg) | Inr d \<Rightarrow> Inr d)"

definition dbGetConsensusHeight :: "Wallet \<Rightarrow> wallet_error + BlockHeight" where
  "dbGetConsensusHeight w =
     (case db_ConsensusHeight w of
        None \<Rightarrow> Inl (ExternalError ''consensus height'')
      | Some h \<Rightarrow> Inr h)"

definition dbGetSpentOutput :: "Wallet \<Rightarrow> OutputID \<Rightarrow> wallet_error + BlockHeight" where
  "dbGetSpentOutput w oid =
     (case db_SpentOutputs w oid of
        None \<Rightarrow> Inl (ExternalError ''unknown output'')
      | Some h \<Rightarrow> Inr h)"

definition dbPutSpentOutput :: "Wallet \<Rightarrow> OutputID \<Rightarrow> BlockHeight \<Rightarrow> wallet_error + Wallet" where
  "dbPutSpentOutput w oid h = Inr (w\<lparr>db_SpentOutputs := (db_SpentOutputs w)(oid \<mapsto> h)\<rparr>)"

definition dbDeleteSpentOutput :: "Wallet \<Rightarrow> OutputID \<Rightarrow> Wallet" where
  "dbDeleteSpentOutput w oid = w\<lparr>db_SpentOutputs := (db_SpentOutputs w)(oid := None)\<rparr>"

text \<open>
  \<open>dbForEachSiacoinOutput\<close> hands every entry of the bucket to its callback, or fails at
  an entry that does not decode. Here it returns the decoded entries.
\<close>

fun dbForEachSiacoinOutput ::
  "(SiacoinOutputID option \<times> SiacoinOutput option) list \<Rightarrow>
     wallet_error + (SiacoinOutputID \<times> SiacoinOutput) list" where
  "dbForEachSiacoinOutput [] = Inr []"
| "dbForEachSiacoinOutput ((Some scoid, Some sco) # rest) =
     (case dbForEachSiacoinOutput rest of
        Inl err \<Rightarrow> Inl err
      | Inr xs \<Rightarrow> Inr ((scoid, sco) # xs))"
| "dbForEachSiacoinOutput (_ # rest) = Inl (ExternalError ''unmarshal'')"

text \<open>
  \<open>nextPrimarySeedAddress\<close>: the key at the current progress of the primary seed is
  added to the wallet's keys under its unlock hash and the progress is advanced.
\<close>

definition nextPrimarySeedAddress ::
  "wallet_primitives \<Rightarrow> Wallet \<Rightarrow> wallet_error + (UnlockConditions \<times> Wallet)" where
  "nextPrimarySeedAddress WP w =
     (let spendKey = generateSpendableKey WP (db_PrimarySeedProgress w);
          uc = sk_UnlockConditions spendKey
      in Inr (uc, w\<lparr>keys := (keys w)(wUnlockHash WP uc \<mapsto> spendKey),
                    db_PrimarySeedProgress := db_PrimarySeedProgress w + 1\<rparr>))"

text \<open>
  \<open>addSignatures\<close>. The outer loop runs over the public keys with their indices; the
  inner loop is the search for the first secret key whose public key has the same
  bytes.
\<close>

fun addSignatures_loop ::
  "wallet_primitives \<Rightarrow> CoveredFields \<Rightarrow> UnlockConditions \<Rightarrow> Hash \<Rightarrow> spendableKey \<Rightarrow>
     nat \<Rightarrow> SiaPublicKey list \<Rightarrow> 64 word \<Rightarrow> Transaction \<Rightarrow> nat list \<Rightarrow>
     Transaction \<times> nat list" where
  "addSignatures_loop WP cf uc parentID spendKey i [] totalSignatures txn newSigIndices =
     (txn, newSigIndices)"
| "addSignatures_loop WP cf uc parentID spendKey i (siaPubKey # rest) totalSignatures txn
       newSigIndices =
     (case find (\<lambda>secretKey. Key siaPubKey = PublicKey WP secretKey) (SecretKeys spendKey) of
        None \<Rightarrow>
          if totalSignatures = SignaturesRequired uc then (txn, newSigIndices)
          else addSignatures_loop WP cf uc parentID spendKey (i + 1) rest totalSignatures txn
                 newSigIndices
      | Some secretKey \<Rightarrow>
          let sig = \<lparr>sig_ParentID = parentID, sig_PublicKeyIndex = of_nat i,
                     sig_CoveredFields = cf, sig_Signature = []\<rparr>;
              newSigIndices' = newSigIndices @ [length (TransactionSignatures txn)];
              txn1 = txn\<lparr>TransactionSignatures := TransactionSignatures txn @ [sig]\<rparr>;
              sigIndex = length (TransactionSignatures txn1) - 1;
              sigHash = SigHash WP txn1 sigIndex;
              encodedSig = SignHash WP sigHash secretKey;
              txn2 = txn1\<lparr>TransactionSignatures :=
                       (TransactionSignatures txn1)
                         [sigIndex := (TransactionSignatures txn1 ! sigIndex)
                                        \<lparr>sig_Signature := encodedSig\<rparr>]\<rparr>;
              totalSignatures' = totalSignatures + 1
          in if totalSignatures' = SignaturesRequired uc then (txn2, newSigIndices')
             else addSignatures_loop WP cf uc parentID spendKey (i + 1) rest totalSignatures'
                    txn2 newSigIndices')"

definition addSignatures ::
  "wallet_primitives \<Rightarrow> Transaction \<Rightarrow> CoveredFields \<Rightarrow> UnlockConditions \<Rightarrow> Hash \<Rightarrow>
     spendableKey \<Rightarrow> Transaction \<times> nat list" where
  "addSignatures WP txn cf uc parentID spendKey =
     addSignatures_loop WP cf uc parentID spendKey 0 (PublicKeys uc) 0 txn []"

definition checkOutput ::
  "wallet_primitives \<Rightarrow> Wallet \<Rightarrow> BlockHeight \<Rightarrow> SiacoinOutputID \<Rightarrow> SiacoinOutput \<Rightarrow>
     Currency \<Rightarrow> wallet_error option" where
  "checkOutput WP w currentHeight scoid output dust =
     (if sco_Value output < dust then Some errDustOutput
      else if (case dbGetSpentOutput w scoid of
                 Inl err \<Rightarrow> False
               | Inr spendHeight \<Rightarrow> spendHeight + RespendTimeout WP > currentHeight)
           then Some errSpendHeightTooHigh
      else
        let outputUnlockConditions = sk_UnlockConditions (keysLookup w (sco_UnlockHash output))
        in if currentHeight < Timelock outputUnlockConditions then Some errOutputTimelock
           else None)"

definition calculateAmountFromOutputs :: "SiacoinOutput list \<Rightarrow> Currency \<Rightarrow> Currency" where
  "calculateAmountFromOutputs outputs fee =
     (let amount = fold (\<lambda>output amount. amount + sco_Value output) outputs 0
      in if fee > 0 then amount + fee else amount)"

text \<open>
  The outputs the wallet can spend: the confirmed ones of the database, then the
  outputs of the unconfirmed transactions that pay to a key of the wallet, sorted by
  value, largest first. \<open>FundSiacoins\<close> has this code in line; \<open>getSortedOutputs\<close> is
  declared in another file and modelled from the spec, which describes the same
  selection. Among outputs of equal value \<open>sort.Sort\<close> promises no particular
  order; here they keep the order they had, as the insertion sort that Go runs on a
  short list leaves them.
\<close>

definition unconfirmedOutputs ::
  "wallet_primitives \<Rightarrow> Wallet \<Rightarrow> (SiacoinOutputID \<times> SiacoinOutput) list" where
  "unconfirmedOutputs WP w =
     concat (map (\<lambda>txn.
        map (\<lambda>(i, sco). (SiacoinOutputID_of WP txn (of_nat i), sco))
            (filter (\<lambda>(i, sco). keys w (sco_UnlockHash sco) \<noteq> None)
                    (enumerate 0 (SiacoinOutputs txn))))
       (unconfirmedProcessedTransactions w))"

definition sortDescending ::
  "(SiacoinOutputID \<times> SiacoinOutput) list \<Rightarrow> (SiacoinOutputID \<times> SiacoinOutput) list" where
  "sortDescending so = rev (sort_key (\<lambda>(scoid, sco). sco_Value sco) (rev so))"

definition getSortedOutputs ::
  "wallet_primitives \<Rightarrow> Wallet \<Rightarrow> wallet_error + (SiacoinOutputID \<times> SiacoinOutput) list" where
  "getSortedOutputs WP w =
     (case dbForEachSiacoinOutput (db_SiacoinOutputs w) of
        Inl err \<Rightarrow> Inl err
      | Inr so \<Rightarrow> Inr (sortDescending (so @ unconfirmedOutputs WP w)))"

text \<open>The final loop of the three Fund functions, marking every selected output as spent.\<close>

fun markSpent :: "Wallet \<Rightarrow> OutputID list \<Rightarrow> BlockHeight \<Rightarrow> wallet_error option \<times> Wallet" where
  "markSpent w [] consensusHeight = (None, w)"
| "markSpent w (oid # rest) consensusHeight =
     (case dbPutSpentOutput w oid consensusHeight of
        Inl err \<Rightarrow> (Some err, w)
      | Inr w' \<Rightarrow> markSpent w' rest consensusHeight)"

text \<open>
  The selection loop of \<open>FundSiacoinsForOutputs\<close>: an output that passes \<open>checkOutput\<close>
  becomes an input of the transaction of the builder at once.
\<close>

fun FundSiacoinsForOutputs_loop ::
  "wallet_primitives \<Rightarrow> Wallet \<Rightarrow> BlockHeight \<Rightarrow> Currency \<Rightarrow> Currency \<Rightarrow>
     (SiacoinOutputID \<times> SiacoinOutput) list \<Rightarrow>
     Currency \<Rightarrow> Currency \<Rightarrow> SiacoinOutputID list \<Rightarrow> transactionBuilder \<Rightarrow>
     Currency \<times> Currency \<times> SiacoinOutputID list \<times> transactionBuilder" where
  "FundSiacoinsForOutputs_loop WP w consensusHeight dust amount [] fund potentialFund
       spentScoids tb = (fund, potentialFund, spentScoids, tb)"
| "FundSiacoinsForOutputs_loop WP w consensusHeight dust amount ((scoid, sco) # rest) fund
       potentialFund spentScoids tb =
     (case checkOutput WP w consensusHeight scoid sco dust of
        Some err \<Rightarrow>
          FundSiacoinsForOutputs_loop WP w consensusHeight dust amount rest fund
            (if err = errSpendHeightTooHigh then potentialFund + sco_Value sco
             else potentialFund)
            spentScoids tb
      | None \<Rightarrow>
          let sci = \<lparr>sci_ParentID = scoid,
                     sci_UnlockConditions =
                       sk_UnlockConditions (keysLookup w (sco_UnlockHash sco))\<rparr>;
              tb' = tb\<lparr>siacoinInputs :=
                          siacoinInputs tb @ [length (SiacoinInputs (transaction tb))],
                        transaction := (transaction tb)
                          \<lparr>SiacoinInputs := SiacoinInputs (transaction tb) @ [sci]\<rparr>\<rparr>;
              spentScoids' = spentScoids @ [scoid];
              fund' = fund + sco_Value sco;
              potentialFund' = potentialFund + sco_Value sco
          in if fund' \<ge> amount then (fund', potentialFund', spentScoids', tb')
             else FundSiacoinsForOutputs_loop WP w consensusHeight dust amount rest fund'
                    potentialFund' spentScoids' tb')"

definition FundSiacoinsForOutputs ::
  "wallet_primitives \<Rightarrow> SiacoinOutput list \<Rightarrow> Currency \<Rightarrow> transactionBuilder \<Rightarrow> Wallet \<Rightarrow>
     wallet_error option \<times> transactionBuilder \<times> Wallet" where
  "FundSiacoinsForOutputs WP outputs fee tb w =
     (case DustThreshold w of
        Inl err \<Rightarrow> (Some err, tb, w)
      | Inr dust \<Rightarrow>
     (case dbGetConsensusHeight w of
        Inl err \<Rightarrow> (Some err, tb, w)
      | Inr consensusHeight \<Rightarrow>
          let amount = calculateAmountFromOutputs outputs fee;
              tb1 = (if fee > 0
                     then tb\<lparr>transaction := (transaction tb)
                               \<lparr>MinerFees := MinerFees (transaction tb) @ [fee]\<rparr>\<rparr>
                     else tb)
          in
     (case getSortedOutputs WP w of
        Inl err \<Rightarrow> (Some err, tb1, w)
      | Inr so \<Rightarrow>
     (case FundSiacoinsForOutputs_loop WP w consensusHeight dust amount so 0 0 [] tb1 of
        (fund, potentialFund, spentScoids, tb2) \<Rightarrow>
          if potentialFund \<ge> amount \<and> fund < amount
          then (Some ErrIncompleteTransactions, tb2, w)
          else if fund < amount then (Some ErrLowBalance, tb2, w)
          else
            let tb3 = tb2\<lparr>transaction := (transaction tb2)
                          \<lparr>SiacoinOutputs := SiacoinOutputs (transaction tb2) @ outputs\<rparr>\<rparr>
            in if amount \<noteq> fund
               then
                 (case nextPrimarySeedAddress WP w of
                    Inl err \<Rightarrow> (Some err, tb3, w)
                  | Inr (refundUnlockConditions, w1) \<Rightarrow>
                      let refundOutput =
                            \<lparr>sco_Value = fund - amount,
                             sco_UnlockHash = wUnlockHash WP refundUnlockConditions\<rparr>;
                          tb4 = tb3\<lparr>transaction := (transaction tb3)
                                   \<lparr>SiacoinOutputs :=
                                      SiacoinOutputs (transaction tb3) @ [refundOutput]\<rparr>\<rparr>
                      in (case markSpent w1 spentScoids consensusHeight of
                            (res, w2) \<Rightarrow> (res, tb4, w2)))
               else
                 (case markSpent w spentScoids consensusHeight of
                    (res, w2) \<Rightarrow> (res, tb3, w2))))))"

text \<open>
  The selection loop of \<open>FundSiacoins\<close>: the inputs go to the parent transaction.
\<close>

fun FundSiacoins_loop ::
  "wallet_primitives \<Rightarrow> Wallet \<Rightarrow> BlockHeight \<Rightarrow> Currency \<Rightarrow> Currency \<Rightarrow>
     (SiacoinOutputID \<times> SiacoinOutput) list \<Rightarrow>
     Currency \<Rightarrow> Currency \<Rightarrow> SiacoinOutputID list \<Rightarrow> Transaction \<Rightarrow>
     Currency \<times> Currency \<times> SiacoinOutputID list \<times> Transaction" where
  "FundSiacoins_loop WP w consensusHeight dust amount [] fund potentialFund spentScoids
       parentTxn = (fund, potentialFund, spentScoids, parentTxn)"
| "FundSiacoins_loop WP w consensusHeight dust amount ((scoid, sco) # rest) fund potentialFund
       spentScoids parentTxn =
     (case checkOutput WP w consensusHeight scoid sco dust of
        Some err \<Rightarrow>
          FundSiacoins_loop WP w consensusHeight dust amount rest fund
            (if err = errSpendHeightTooHigh then potentialFund + sco_Value sco
             else potentialFund)
            spentScoids parentTxn
      | None \<Rightarrow>
          let sci = \<lparr>sci_ParentID = scoid,
                     sci_UnlockConditions =
                       sk_UnlockConditions (keysLookup w (sco_UnlockHash sco))\<rparr>;
              parentTxn' = parentTxn\<lparr>SiacoinInputs := SiacoinInputs parentTxn @ [sci]\<rparr>;
              spentScoids' = spentScoids @ [scoid];
              fund' = fund + sco_Value sco;
              potentialFund' = potentialFund + sco_Value sco
          in if fund' \<ge> amount then (fund', potentialFund', spentScoids', parentTxn')
             else FundSiacoins_loop WP w consensusHeight dust amount rest fund' potentialFund'
                    spentScoids' parentTxn')"

text \<open>Signing every input of the parent transaction, with the keys of the wallet.\<close>

definition FullCoveredFields :: CoveredFields where
  "FullCoveredFields =
     \<lparr>WholeTransaction = True, cf_MinerFees = [], cf_SiacoinInputs = [],
      cf_SiacoinOutputs = [], cf_FileContracts = [], cf_FileContractRevisions = [],
      cf_StorageProofs = [], cf_SiafundInputs = [], cf_SiafundOutputs = [],
      cf_ArbitraryData = [], cf_TransactionSignatures = []\<rparr>"

definition signParentSiacoinInputs ::
  "wallet_primitives \<Rightarrow> Wallet \<Rightarrow> Transaction \<Rightarrow> Transaction" where
  "signParentSiacoinInputs WP w parentTxn =
     fold (\<lambda>sci txn.
             fst (addSignatures WP txn FullCoveredFields (sci_UnlockConditions sci)
                    (sci_ParentID sci) (keysLookup w (wUnlockHash WP (sci_UnlockConditions sci)))))
          (SiacoinInputs parentTxn) parentTxn"

definition signParentSiafundInputs ::
  "wallet_primitives \<Rightarrow> Wallet \<Rightarrow> Transaction \<Rightarrow> Transaction" where
  "signParentSiafundInputs WP w parentTxn =
     fold (\<lambda>sfi txn.
             fst (addSignatures WP txn FullCoveredFields (sfi_UnlockConditions sfi)
                    (sfi_ParentID sfi) (keysLookup w (wUnlockHash WP (sfi_UnlockConditions sfi)))))
          (SiafundInputs parentTxn) parentTxn"

definition FundSiacoins ::
  "wallet_primitives \<Rightarrow> Currency \<Rightarrow> transactionBuilder \<Rightarrow> Wallet \<Rightarrow>
     wallet_error option \<times> transactionBuilder \<times> Wallet" where
  "FundSiacoins WP amount tb w =
     (case DustThreshold w of
        Inl err \<Rightarrow> (Some err, tb, w)
      | Inr dust \<Rightarrow>
     (case dbGetConsensusHeight w of
        Inl err \<Rightarrow> (Some err, tb, w)
      | Inr consensusHeight \<Rightarrow>
     (case dbForEachSiacoinOutput (db_SiacoinOutputs w) of
        Inl err \<Rightarrow> (Some err, tb, w)
      | Inr confirmed \<Rightarrow>
          let so = sortDescending (confirmed @ unconfirmedOutputs WP w)
          in
     (case FundSiacoins_loop WP w consensusHeight dust amount so 0 0 [] emptyTransaction of
        (fund, potentialFund, spentScoids, parentTxn) \<Rightarrow>
          if potentialFund \<ge> amount \<and> fund < amount
          then (Some ErrIncompleteTransactions, tb, w)
          else if fund < amount then (Some ErrLowBalance, tb, w)
          else
     (case nextPrimarySeedAddress WP w of
        Inl err \<Rightarrow> (Some err, tb, w)
      | Inr (parentUnlockConditions, w1) \<Rightarrow>
          let exactOutput =
                \<lparr>sco_Value = amount, sco_UnlockHash = wUnlockHash WP parentUnlockConditions\<rparr>;
              parentTxn1 = parentTxn\<lparr>SiacoinOutputs := SiacoinOutputs parentTxn @ [exactOutput]\<rparr>
          in
     (case (if amount \<noteq> fund
            then (case nextPrimarySeedAddress WP w1 of
                    Inl err \<Rightarrow> Inl err
                  | Inr (refundUnlockConditions, w2) \<Rightarrow>
                      let refundOutput =
                            \<lparr>sco_Value = fund - amount,
                             sco_UnlockHash = wUnlockHash WP refundUnlockConditions\<rparr>
                      in Inr (parentTxn1\<lparr>SiacoinOutputs :=
                                SiacoinOutputs parentTxn1 @ [refundOutput]\<rparr>, w2))
            else Inr (parentTxn1, w1)) of
        Inl err \<Rightarrow> (Some err, tb, w1)
      | Inr (parentTxn2, w2) \<Rightarrow>
          let parentTxn3 = signParentSiacoinInputs WP w2 parentTxn2
          in
     (case dbPutSpentOutput w2 (SiacoinOutputID_of WP parentTxn3 0) consensusHeight of
        Inl err \<Rightarrow> (Some err, tb, w2)
      | Inr w3 \<Rightarrow>
          let newInput =
                \<lparr>sci_ParentID = SiacoinOutputID_of WP parentTxn3 0,
                 sci_UnlockConditions = parentUnlockConditions\<rparr>;
              tb' = tb\<lparr>newParents := newParents tb @ [length (parents tb)],
                        parents := parents tb @ [parentTxn3],
                        siacoinInputs :=
                          siacoinInputs tb @ [length (SiacoinInputs (transaction tb))],
                        transaction := (transaction tb)
                          \<lparr>SiacoinInputs := SiacoinInputs (transaction tb) @ [newInput]\<rparr>\<rparr>
          in (case markSpent w3 spentScoids consensusHeight of
                (res, w4) \<Rightarrow> (res, tb', w4)))))))))"

text \<open>
  The selection loop of \<open>FundSiafunds\<close> over the siafund bucket. There is no dust check;
  the respend check compares the spend height (zero when the output has no entry) with
  the allowed height; each selected output takes a fresh address for its claim, so the
  wallet changes inside the loop and is returned also when the loop ends in an error.
\<close>

fun FundSiafunds_loop ::
  "wallet_primitives \<Rightarrow> BlockHeight \<Rightarrow> Currency \<Rightarrow>
     (SiafundOutputID option \<times> SiafundOutput option) list \<Rightarrow>
     Currency \<Rightarrow> Currency \<Rightarrow> Transaction \<Rightarrow> SiafundOutputID list \<Rightarrow> Wallet \<Rightarrow>
     (wallet_error + Currency \<times> Currency \<times> Transaction \<times> SiafundOutputID list) \<times> Wallet" where
  "FundSiafunds_loop WP consensusHeight amount [] fund potentialFund parentTxn spentSfoids w =
     (Inr (fund, potentialFund, parentTxn, spentSfoids), w)"
| "FundSiafunds_loop WP consensusHeight amount ((idBytes, sfoBytes) # rest) fund potentialFund
       parentTxn spentSfoids w =
     (case idBytes of
        None \<Rightarrow> (Inl (ExternalError ''unmarshal''), w)
      | Some sfoid \<Rightarrow>
     (case sfoBytes of
        None \<Rightarrow> (Inl (ExternalError ''unmarshal''), w)
      | Some sfo \<Rightarrow>
          let spendHeight = (case dbGetSpentOutput w sfoid of Inl err \<Rightarrow> 0 | Inr h \<Rightarrow> h);
              allowedHeight = (if consensusHeight < RespendTimeout WP then 0
                               else consensusHeight - RespendTimeout WP)
          in if spendHeight > allowedHeight
             then FundSiafunds_loop WP consensusHeight amount rest fund
                    (potentialFund + sfo_Value sfo) parentTxn spentSfoids w
             else
               let outputUnlockConditions =
                     sk_UnlockConditions (keysLookup w (sfo_UnlockHash sfo))
               in if consensusHeight < Timelock outputUnlockConditions
                  then FundSiafunds_loop WP consensusHeight amount rest fund potentialFund
                         parentTxn spentSfoids w
                  else
                    (case nextPrimarySeedAddress WP w of
                       Inl err \<Rightarrow> (Inl err, w)
                     | Inr (parentClaimUnlockConditions, w') \<Rightarrow>
                         let sfi = \<lparr>sfi_ParentID = sfoid,
                                    sfi_UnlockConditions = outputUnlockConditions,
                                    sfi_ClaimUnlockHash =
                                      wUnlockHash WP parentClaimUnlockConditions\<rparr>;
                             parentTxn' = parentTxn
                               \<lparr>SiafundInputs := SiafundInputs parentTxn @ [sfi]\<rparr>;
                             spentSfoids' = spentSfoids @ [sfoid];
                             fund' = fund + sfo_Value sfo;
                             potentialFund' = potentialFund + sfo_Value sfo
                         in if fund' \<ge> amount
                            then (Inr (fund', potentialFund', parentTxn', spentSfoids'), w')
                            else FundSiafunds_loop WP consensusHeight amount rest fund'
                                   potentialFund' parentTxn' spentSfoids' w')))"

definition FundSiafunds ::
  "wallet_primitives \<Rightarrow> Currency \<Rightarrow> transactionBuilder \<Rightarrow> Wallet \<Rightarrow>
     wallet_error option \<times> transactionBuilder \<times> Wallet" where
  "FundSiafunds WP amount tb w =
     (case dbGetConsensusHeight w of
        Inl err \<Rightarrow> (Some err, tb, w)
      | Inr consensusHeight \<Rightarrow>
     (case FundSiafunds_loop WP consensusHeight amount (db_SiafundOutputs w) 0 0
             emptyTransaction [] w of
        (Inl err, w1) \<Rightarrow> (Some err, tb, w1)
      | (Inr (fund, potentialFund, parentTxn, spentSfoids), w1) \<Rightarrow>
          if potentialFund \<ge> amount \<and> fund < amount
          then (Some ErrIncompleteTransactions, tb, w1)
          else if fund < amount then (Some ErrLowBalance, tb, w1)
          else
     (case nextPrimarySeedAddress WP w1 of
        Inl err \<Rightarrow> (Some err, tb, w1)
      | Inr (parentUnlockConditions, w2) \<Rightarrow>
          let exactOutput =
                \<lparr>sfo_Value = amount, sfo_UnlockHash = wUnlockHash WP parentUnlockConditions,
                 sfo_ClaimStart = 0\<rparr>;
              parentTxn1 = parentTxn\<lparr>SiafundOutputs := SiafundOutputs parentTxn @ [exactOutput]\<rparr>
          in
     (case (if amount \<noteq> fund
            then (case nextPrimarySeedAddress WP w2 of
                    Inl err \<Rightarrow> Inl err
                  | Inr (refundUnlockConditions, w3) \<Rightarrow>
                      let refundOutput =
                            \<lparr>sfo_Value = fund - amount,
                             sfo_UnlockHash = wUnlockHash WP refundUnlockConditions,
                             sfo_ClaimStart = 0\<rparr>
                      in Inr (parentTxn1\<lparr>SiafundOutputs :=
                                SiafundOutputs parentTxn1 @ [refundOutput]\<rparr>, w3))
            else Inr (parentTxn1, w2)) of
        Inl err \<Rightarrow> (Some err, tb, w2)
      | Inr (parentTxn2, w3) \<Rightarrow>
          let parentTxn3 = signParentSiafundInputs WP w3 parentTxn2
          in
     (case nextPrimarySeedAddress WP w3 of
        Inl err \<Rightarrow> (Some err, tb, w3)
      | Inr (claimUnlockConditions, w4) \<Rightarrow>
          let newInput =
                \<lparr>sfi_ParentID = SiafundOutputID_of WP parentTxn3 0,
                 sfi_UnlockConditions = parentUnlockConditions,
                 sfi_ClaimUnlockHash = wUnlockHash WP claimUnlockConditions\<rparr>;
              tb' = tb\<lparr>newParents := newParents tb @ [length (parents tb)],
                        parents := parents tb @ [parentTxn3],
                        siafundInputs :=
                          siafundInputs tb @ [length (SiafundInputs (transaction tb))],
                        transaction := (transaction tb)
                          \<lparr>SiafundInputs := SiafundInputs (transaction tb) @ [newInput]\<rparr>\<rparr>
          in (case markSpent w4 spentSfoids consensusHeight of
                (res, w5) \<Rightarrow> (res, tb', w5)))))))"

text \<open>
  \<open>Drop\<close>: the spent entry of every siacoin input of the parents and of the transaction
  is deleted, then the builder is reset.
\<close>

definition Drop :: "transactionBuilder \<Rightarrow> Wallet \<Rightarrow> transactionBuilder \<times> Wallet" where
  "Drop tb w =
     (let txns = parents tb @ [transaction tb];
          w' = fold (\<lambda>txn w1.
                  fold (\<lambda>sci w2. dbDeleteSpentOutput w2 (sci_ParentID sci))
                       (SiacoinInputs txn) w1)
                 txns w
      in (\<lparr>parents = [], signed_tb = False, transaction = emptyTransaction, newParents = [],
           siacoinInputs = [], siafundInputs = [], transactionSignatures = []\<rparr>, w'))"

text \<open>The covered fields that \<open>Sign\<close> builds: every index of every list that is present.\<close>

definition indices :: "'a list \<Rightarrow> 64 word list" where
  "indices xs = map of_nat [0..<length xs]"

definition Sign_coveredFields :: "bool \<Rightarrow> Transaction \<Rightarrow> CoveredFields" where
  "Sign_coveredFields wholeTransaction t =
     (let coveredFields =
            (if wholeTransaction then FullCoveredFields
             else FullCoveredFields
                    \<lparr>WholeTransaction := False,
                     cf_MinerFees := indices (MinerFees t),
                     cf_SiacoinInputs := indices (SiacoinInputs t),
                     cf_SiacoinOutputs := indices (SiacoinOutputs t),
                     cf_FileContracts := indices (FileContracts t),
                     cf_FileContractRevisions := indices (FileContractRevisions t),
                     cf_StorageProofs := indices (StorageProofs t),
                     cf_SiafundInputs := indices (SiafundInputs t),
                     cf_SiafundOutputs := indices (SiafundOutputs t),
                     cf_ArbitraryData := indices (ArbitraryData t)\<rparr>)
      in coveredFields\<lparr>cf_TransactionSignatures := indices (TransactionSignatures t)\<rparr>)"

text \<open>
  The two signing loops of \<open>Sign\<close>. \<open>signed\<close> is set after \<open>addSignatures\<close> has returned
  for an input, whatever the number of signatures it added.
\<close>

fun Sign_siacoinInputs ::
  "wallet_primitives \<Rightarrow> Wallet \<Rightarrow> CoveredFields \<Rightarrow> nat list \<Rightarrow> transactionBuilder \<Rightarrow>
     wallet_error option \<times> transactionBuilder" where
  "Sign_siacoinInputs WP w coveredFields [] tb = (None, tb)"
| "Sign_siacoinInputs WP w coveredFields (inputIndex # rest) tb =
     (if inputIndex \<ge> length (SiacoinInputs (transaction tb)) then (Some IndexPanic, tb)
      else
        let input = SiacoinInputs (transaction tb) ! inputIndex
        in (case keys w (wUnlockHash WP (sci_UnlockConditions input)) of
              None \<Rightarrow> (Some errCannotSignInput, tb)
            | Some key \<Rightarrow>
                (case addSignatures WP (transaction tb) coveredFields
                        (sci_UnlockConditions input) (sci_ParentID input) key of
                   (txn', newSigIndices) \<Rightarrow>
                     Sign_siacoinInputs WP w coveredFields rest
                       (tb\<lparr>transaction := txn',
                           transactionSignatures := transactionSignatures tb @ newSigIndices,
                           signed_tb := True\<rparr>))))"

fun Sign_siafundInputs ::
  "wallet_primitives \<Rightarrow> Wallet \<Rightarrow> CoveredFields \<Rightarrow> nat list \<Rightarrow> transactionBuilder \<Rightarrow>
     wallet_error option \<times> transactionBuilder" where
  "Sign_siafundInputs WP w coveredFields [] tb = (None, tb)"
| "Sign_siafundInputs WP w coveredFields (inputIndex # rest) tb =
     (if inputIndex \<ge> length (SiafundInputs (transaction tb)) then (Some IndexPanic, tb)
      else
        let input = SiafundInputs (transaction tb) ! inputIndex
        in (case keys w (wUnlockHash WP (sfi_UnlockConditions input)) of
              None \<Rightarrow> (Some errCannotSignInput, tb)
            | Some key \<Rightarrow>
                (case addSignatures WP (transaction tb) coveredFields
                        (sfi_UnlockConditions input) (sfi_ParentID input) key of
                   (txn', newSigIndices) \<Rightarrow>
                     Sign_siafundInputs WP w coveredFields rest
                       (tb\<lparr>transaction := txn',
                           transactionSignatures := transactionSignatures tb @ newSigIndices,
                           signed_tb := True\<rparr>))))"

text \<open>\<open>Sign\<close> returns the transaction set or an error, and the builder as it leaves it.\<close>

definition Sign ::
  "wallet_primitives \<Rightarrow> bool \<Rightarrow> transactionBuilder \<Rightarrow> Wallet \<Rightarrow>
     (wallet_error + Transaction list) \<times> transactionBuilder" where
  "Sign WP wholeTransaction tb w =
     (if signed_tb tb then (Inl errBuilderAlreadySigned, tb)
      else
        let coveredFields = Sign_coveredFields wholeTransaction (transaction tb)
        in (case Sign_siacoinInputs WP w coveredFields (siacoinInputs tb) tb of
              (Some err, tb1) \<Rightarrow> (Inl err, tb1)
            | (None, tb1) \<Rightarrow>
                (case Sign_siafundInputs WP w coveredFields (siafundInputs tb1) tb1 of
                   (Some err, tb2) \<Rightarrow> (Inl err, tb2)
                 | (None, tb2) \<Rightarrow> (Inr (parents tb2 @ [transaction tb2]), tb2))))"

section \<open>Definitions in the words of the specification, and example states\<close>

text \<open>The value, in the view, of the output that a siacoin input spends (zero if there is none).\<close>

definition inputValue :: "State \<Rightarrow> SiacoinInput \<Rightarrow> Currency" where
  "inputValue s sci = (case siacoinOutputs s (sci_ParentID sci) of None \<Rightarrow> 0 | Some sco \<Rightarrow> sco_Value sco)"

text \<open>The four conditions the specification puts on a new file contract.\<close>

definition spec_contractOK :: "primitives \<Rightarrow> State \<Rightarrow> FileContract \<Rightarrow> bool" where
  "spec_contractOK P s fc =
     (fc_Start fc > height s \<and> fc_Expiration fc > fc_Start fc \<and>
      sum_list (map sco_Value (fc_ValidProofOutputs fc))
        = Currency_Sub P (fc_Payout fc) (Tax P (fc_Payout fc)) \<and>
      sum_list (map sco_Value (fc_MissedProofOutputs fc)) = fc_Payout fc)"

text \<open>
  The location that the metadata record of slot \<open>k\<close> describes, the records of the slots in use
  of one folder in the order of its slots (none when its metadata cannot be read), the
  records of all folders in the order of the scan, and the entering of a record into
  the location map.
\<close>

definition slotEntry :: "byte list \<Rightarrow> 16 word \<Rightarrow> nat \<Rightarrow> sectorID \<times> sectorLocation" where
  "slotEntry bytes folder k =
     (take 12 (drop (sectorMetadataDiskSize * k) bytes),
      \<lparr>sl_index = k, sl_storageFolder = folder,
       sl_count = LittleEndian_Uint16 (take 2 (drop (sectorMetadataDiskSize * k + 12) bytes))\<rparr>)"

definition folderEntries :: "store \<Rightarrow> storageFolder \<Rightarrow> (sectorID \<times> sectorLocation) list" where
  "folderEntries h sf =
     (case readFullMetadata (sf_metadataFile sf)
             (length (h (sf_usage sf)) * storageFolderGranularity) of
        Inl err \<Rightarrow> []
      | Inr bytes \<Rightarrow> map (slotEntry bytes (sf_index sf)) (usageSectors (h (sf_usage sf))))"

definition enter :: "sectorID \<times> sectorLocation \<Rightarrow> (sectorID \<rightharpoonup> sectorLocation) \<Rightarrow> (sectorID \<rightharpoonup> sectorLocation)" where
  "enter e m = m(fst e \<mapsto> snd e)"

definition scannedEntries :: "ContractManager \<Rightarrow> (sectorID \<times> sectorLocation) list" where
  "scannedEntries cm = concat (map (folderEntries (heap cm)) (storageFolders cm))"

text \<open>
  What the scan leaves in a folder: a failed read is counted; a successful read is
  counted and the sector counter grows by the number of slots in use.
\<close>

definition countRead :: "store \<Rightarrow> storageFolder \<Rightarrow> storageFolder" where
  "countRead h sf =
     (case readFullMetadata (sf_metadataFile sf)
             (length (h (sf_usage sf)) * storageFolderGranularity) of
        Inl err \<Rightarrow> sf\<lparr>atomicFailedReads := atomicFailedReads sf + 1\<rparr>
      | Inr bytes \<Rightarrow>
          sf\<lparr>atomicSuccessfulReads := atomicSuccessfulReads sf + 1,
             sf_sectors := sf_sectors sf + of_nat (length (usageSectors (h (sf_usage sf))))\<rparr>)"

text \<open>A validator whose primitives are simple enough to evaluate, and a small view.\<close>

definition examplePrimitives :: primitives where
  "examplePrimitives =
     \<lparr>UnlockHash_of = (\<lambda>uc. concat (map Key (PublicKeys uc))),
      Tax = (\<lambda>payout. payout div 25),
      Currency_Sub = (\<lambda>a b. a - b),
      HashBytes = (\<lambda>bs. bs),
      CalculateSegments = (\<lambda>size. size),
      VerifySegment = (\<lambda>segment hashSet numSegments index root. segment = root),
      validSignatures = (\<lambda>s t. None)\<rparr>"

definition exampleConditions :: UnlockConditions where
  "exampleConditions = \<lparr>Timelock = 0, PublicKeys = [\<lparr>Key = [7]\<rparr>], SignaturesRequired = 1\<rparr>"

definition exampleContract :: FileContract where
  "exampleContract =
     \<lparr>fc_FileSize = 4, fc_FileMerkleRoot = [3], fc_Start = 11, fc_Expiration = 12,
      fc_Payout = 1000,
      fc_ValidProofOutputs = [\<lparr>sco_Value = 960, sco_UnlockHash = [8]\<rparr>],
      fc_MissedProofOutputs = [\<lparr>sco_Value = 1000, sco_UnlockHash = [9]\<rparr>],
      fc_TerminationHash = [7]\<rparr>"

definition exampleState :: State where
  "exampleState =
     \<lparr>height = 10,
      siacoinOutputs = [[1] \<mapsto> \<lparr>sco_Value = 100, sco_UnlockHash = [7]\<rparr>,
                        [2] \<mapsto> \<lparr>sco_Value = 1000, sco_UnlockHash = [7]\<rparr>,
                        [3] \<mapsto> \<lparr>sco_Value = 2000, sco_UnlockHash = [7]\<rparr>],
      siafundOutputs = Map.empty,
      fileContracts = [[5] \<mapsto> exampleContract\<lparr>fc_Start := 3, fc_Expiration := 20\<rparr>,
                       [6] \<mapsto> exampleContract\<lparr>fc_Start := 0, fc_Expiration := 20\<rparr>],
      currentPath = [2 \<mapsto> [9]]\<rparr>"

definition exampleSpend :: "SiacoinOutputID \<Rightarrow> Transaction" where
  "exampleSpend scoid = emptyTransaction
     \<lparr>SiacoinInputs := [\<lparr>sci_ParentID = scoid, sci_UnlockConditions = exampleConditions\<rparr>]\<rparr>"

definition exampleProof :: "FileContractID \<Rightarrow> Transaction" where
  "exampleProof fcid = emptyTransaction
     \<lparr>StorageProofs := [\<lparr>sp_ParentID = fcid, sp_Segment = [3], sp_HashSet = []\<rparr>]\<rparr>"

text \<open>
  A contract manager with one folder of 64 slots: slot 42 is in use and its metadata
  record holds a sector ID and the count 3.
\<close>

definition exampleSectorID :: sectorID where
  "exampleSectorID = [1, 2, 3, 4, 5, 6, 7, 8, 9, 10, 11, 12]"

definition exampleMetadata :: "byte list" where
  "exampleMetadata = replicate 588 0 @ exampleSectorID @ [3, 0] @ replicate 294 0"

definition exampleFolder :: storageFolder where
  "exampleFolder =
     \<lparr>atomicFailedReads = 0, atomicSuccessfulReads = 0, sf_index = 7, sf_path = ''/data'',
      sf_usage = 0, sf_queuedSectors = [], sf_metadataFile = File exampleMetadata,
      sf_sectors = 0\<rparr>"

definition exampleManager :: "storageFolder \<Rightarrow> ContractManager" where
  "exampleManager sf =
     \<lparr>sectorSalt = [], storageFolders = [sf], sectorLocations = Map.empty,
      heap = (\<lambda>r. [])(0 := [push_bit 42 1])\<rparr>"

text \<open>
  A manager with two folders. The first has slots 1 and 42 in use, and both metadata
  records hold the same sector ID, with count 5 in slot 1 and count 3 in slot 42. The
  metadata of the second cannot be read.
\<close>

definition exampleMetadata2 :: "byte list" where
  "exampleMetadata2 =
     replicate 14 0 @ exampleSectorID @ [5, 0] @ replicate 560 0 @
     exampleSectorID @ [3, 0] @ replicate 294 0"

definition exampleManager2 :: ContractManager where
  "exampleManager2 =
     \<lparr>sectorSalt = [],
      storageFolders =
        [exampleFolder\<lparr>sf_usage := 1, sf_metadataFile := File exampleMetadata2\<rparr>,
         exampleFolder\<lparr>sf_index := 8, sf_metadataFile := FailingFile\<rparr>],
      sectorLocations = Map.empty,
      heap = (\<lambda>r. [])(0 := [push_bit 42 1], 1 := [push_bit 1 1 OR push_bit 42 1])\<rparr>"

subsection \<open>The selection of outputs, in the words of the specification\<close>

text \<open>
  The classes of outputs that the selection of the builder tells apart, in the words of
  the specification: an output was recently spent when its spend height plus the
  respend timeout is above the current height; it is timelocked when the timelock of
  the wallet's key for its address is above the current height. A siacoin output is
  usable when it is not dust, not recently spent and not timelocked; it is reserved
  when it is not dust and recently spent, whatever its timelock.
\<close>

definition recentlySpent :: "wallet_primitives \<Rightarrow> Wallet \<Rightarrow> BlockHeight \<Rightarrow> OutputID \<Rightarrow> bool" where
  "recentlySpent WP w h oid =
     (case db_SpentOutputs w oid of
        None \<Rightarrow> False
      | Some spendHeight \<Rightarrow> spendHeight + RespendTimeout WP > h)"

definition timelocked :: "Wallet \<Rightarrow> BlockHeight \<Rightarrow> UnlockHash \<Rightarrow> bool" where
  "timelocked w h uh = (h < Timelock (sk_UnlockConditions (keysLookup w uh)))"

definition usableSiacoin ::
  "wallet_primitives \<Rightarrow> Wallet \<Rightarrow> BlockHeight \<Rightarrow> Currency \<Rightarrow>
     SiacoinOutputID \<times> SiacoinOutput \<Rightarrow> bool" where
  "usableSiacoin WP w h dust =
     (\<lambda>(scoid, sco). dust \<le> sco_Value sco \<and> \<not> recentlySpent WP w h scoid \<and>
                      \<not> timelocked w h (sco_UnlockHash sco))"

definition reservedSiacoin ::
  "wallet_primitives \<Rightarrow> Wallet \<Rightarrow> BlockHeight \<Rightarrow> Currency \<Rightarrow>
     SiacoinOutputID \<times> SiacoinOutput \<Rightarrow> bool" where
  "reservedSiacoin WP w h dust =
     (\<lambda>(scoid, sco). dust \<le> sco_Value sco \<and> recentlySpent WP w h scoid)"

text \<open>The sum of the values of the outputs of a list that satisfy a predicate.\<close>

definition totalValue :: "('a \<Rightarrow> Currency) \<Rightarrow> ('a \<Rightarrow> bool) \<Rightarrow> 'a list \<Rightarrow> Currency" where
  "totalValue val P xs = sum_list (map val (filter P xs))"

definition siacoinValue :: "SiacoinOutputID \<times> SiacoinOutput \<Rightarrow> Currency" where
  "siacoinValue = (\<lambda>(scoid, sco). sco_Value sco)"

text \<open>
  The selection on its own, without the builder: outputs are taken in order while the
  fund is below the amount; a reserved output only adds to the potential fund.
\<close>

fun selectOutputs ::
  "('a \<Rightarrow> bool) \<Rightarrow> ('a \<Rightarrow> bool) \<Rightarrow> ('a \<Rightarrow> Currency) \<Rightarrow> Currency \<Rightarrow> 'a list \<Rightarrow>
     Currency \<Rightarrow> Currency \<Rightarrow> 'a list \<Rightarrow> Currency \<times> Currency \<times> 'a list" where
  "selectOutputs ok res val amount [] fund pot sel = (fund, pot, sel)"
| "selectOutputs ok res val amount (x # xs) fund pot sel =
     (if ok x
      then if fund + val x \<ge> amount then (fund + val x, pot + val x, sel @ [x])
           else selectOutputs ok res val amount xs (fund + val x) (pot + val x) (sel @ [x])
      else selectOutputs ok res val amount xs fund (if res x then pot + val x else pot) sel)"

text \<open>The siacoin input that the builder makes for a selected output.\<close>

definition inputFor :: "Wallet \<Rightarrow> SiacoinOutputID \<times> SiacoinOutput \<Rightarrow> SiacoinInput" where
  "inputFor w = (\<lambda>(scoid, sco).
     \<lparr>sci_ParentID = scoid,
      sci_UnlockConditions = sk_UnlockConditions (keysLookup w (sco_UnlockHash sco))\<rparr>)"









text \<open>
  A wallet with one siacoin output of 100 and one siafund output of 5, both paying to
  the address of its only key, at height 10 with a respend timeout of 40. The key's
  timelock and secret keys, and the table of spent outputs, are left open.
\<close>

definition exampleWalletPrimitives :: wallet_primitives where
  "exampleWalletPrimitives =
     \<lparr>RespendTimeout = 40,
      wUnlockHash = (\<lambda>uc. concat (map Key (PublicKeys uc))),
      SiacoinOutputID_of = (\<lambda>txn i. [100, ucast i]),
      SiafundOutputID_of = (\<lambda>txn i. [101, ucast i]),
      generateSpendableKey = (\<lambda>n.
         \<lparr>sk_UnlockConditions =
            \<lparr>Timelock = 0, PublicKeys = [\<lparr>Key = [200, of_nat n]\<rparr>], SignaturesRequired = 1\<rparr>,
          SecretKeys = [[200, of_nat n]]\<rparr>),
      PublicKey = (\<lambda>secretKey. secretKey),
      SigHash = (\<lambda>txn i. [of_nat i]),
      SignHash = (\<lambda>sigHash secretKey. sigHash @ secretKey)\<rparr>"

definition exampleKey :: "BlockHeight \<Rightarrow> SecretKey list \<Rightarrow> spendableKey" where
  "exampleKey timelock secretKeys =
     \<lparr>sk_UnlockConditions =
        \<lparr>Timelock = timelock, PublicKeys = [\<lparr>Key = [7]\<rparr>], SignaturesRequired = 1\<rparr>,
      SecretKeys = secretKeys\<rparr>"

definition exampleWallet :: "spendableKey \<Rightarrow> (OutputID \<rightharpoonup> BlockHeight) \<Rightarrow> Wallet" where
  "exampleWallet key spent =
     \<lparr>dustThreshold = Inr 1, db_ConsensusHeight = Some 10,
      db_SiacoinOutputs = [(Some [1], Some \<lparr>sco_Value = 100, sco_UnlockHash = [7]\<rparr>)],
      db_SiafundOutputs =
        [(Some [2], Some \<lparr>sfo_Value = 5, sfo_UnlockHash = [7], sfo_ClaimStart = 0\<rparr>)],
      db_SpentOutputs = spent, db_PrimarySeedProgress = 0,
      unconfirmedProcessedTransactions = [], keys = [[7] \<mapsto> key]\<rparr>"

definition exampleBuilder :: transactionBuilder where
  "exampleBuilder =
     \<lparr>parents = [], signed_tb = False, transaction = emptyTransaction, newParents = [],
      siacoinInputs = [], siafundInputs = [], transactionSignatures = []\<rparr>"




section \<open>Properties of the validator\<close>

lemmas example_defs = examplePrimitives_def exampleConditions_def exampleContract_def
  exampleState_def exampleSpend_def exampleProof_def emptyTransaction_def

lemmas validator_defs = validTransaction_def FollowsStorageProofRules_def validSiacoins_def
  SiacoinOutputSum_def validUnlockConditions_def validFileContracts_def validFileContract_def
  validFileContractTerminations_def validStorageProofs_def storageProofSegment_def
  validSiafunds_def SetBytes_def

lemma fold_add_sum_list: "fold (\<lambda>x acc. acc + f x) xs (a::nat) = a + sum_list (map f xs)"
  by (induction xs arbitrary: a) simp_all

lemma SiacoinOutputSum_eq:
  "SiacoinOutputSum t = sum_list (MinerFees t) + sum_list (map fc_Payout (FileContracts t))
     + sum_list (map sco_Value (SiacoinOutputs t))"
  using fold_add_sum_list [of "\<lambda>x. x" "MinerFees t" 0]
  by (simp add: SiacoinOutputSum_def fold_add_sum_list)

lemma validSiacoins_loop_Inr:
  "validSiacoins_loop P s xs a = Inr b \<Longrightarrow>
     (\<forall>sci \<in> set xs. siacoinOutputs s (sci_ParentID sci) \<noteq> None) \<and>
     b = a + sum_list (map (inputValue s) xs)"
proof (induction xs arbitrary: a)
  case Nil
  then show ?case by simp
next
  case (Cons sci rest)
  from Cons.prems obtain sco where sco: "siacoinOutputs s (sci_ParentID sci) = Some sco"
    and rest: "validSiacoins_loop P s rest (a + sco_Value sco) = Inr b"
    by (auto split: option.splits)
  from Cons.IH [OF rest] sco show ?case
    by (simp add: inputValue_def)
qed

lemma validTransaction_None_siacoins:
  "validTransaction P s t = None \<Longrightarrow> validSiacoins P s t = None"
  by (simp add: validTransaction_def split: option.splits)

text \<open>
  Claim C1. Whenever the validator accepts a transaction, every siacoin input spends an
  output of the view and the values of these outputs sum to the miner fees plus the
  payouts of the new file contracts plus the values of the siacoin outputs. When the
  two sums differ the validator rejects. Siafund outputs and storage proofs do not
  enter \<open>SiacoinOutputSum\<close>.
\<close>

theorem siacoin_conservation:
  "(validTransaction P s t = None \<longrightarrow>
      (\<forall>sci \<in> set (SiacoinInputs t). siacoinOutputs s (sci_ParentID sci) \<noteq> None) \<and>
      sum_list (map (inputValue s) (SiacoinInputs t))
        = sum_list (MinerFees t) + sum_list (map fc_Payout (FileContracts t))
          + sum_list (map sco_Value (SiacoinOutputs t)))
   \<and> (sum_list (map (inputValue s) (SiacoinInputs t))
        \<noteq> sum_list (MinerFees t) + sum_list (map fc_Payout (FileContracts t))
          + sum_list (map sco_Value (SiacoinOutputs t))
       \<longrightarrow> validTransaction P s t \<noteq> None)
   \<and> SiacoinOutputSum (t\<lparr>SiafundOutputs := sfos, StorageProofs := sps\<rparr>) = SiacoinOutputSum t"
proof -
  have acc: "(\<forall>sci \<in> set (SiacoinInputs t). siacoinOutputs s (sci_ParentID sci) \<noteq> None) \<and>
      sum_list (map (inputValue s) (SiacoinInputs t))
        = sum_list (MinerFees t) + sum_list (map fc_Payout (FileContracts t))
          + sum_list (map sco_Value (SiacoinOutputs t))"
    if ok: "validTransaction P s t = None"
  proof -
    from ok have "validSiacoins P s t = None" by (rule validTransaction_None_siacoins)
    then obtain b where l: "validSiacoins_loop P s (SiacoinInputs t) 0 = Inr b"
      and b: "b = SiacoinOutputSum t"
      by (auto simp: validSiacoins_def split: sum.splits if_splits)
    from validSiacoins_loop_Inr [OF l] b show ?thesis
      by (simp add: SiacoinOutputSum_eq)
  qed
  have frame: "SiacoinOutputSum (t\<lparr>SiafundOutputs := sfos, StorageProofs := sps\<rparr>) = SiacoinOutputSum t"
    by (simp add: SiacoinOutputSum_def)
  from acc frame show ?thesis by blast
qed

text \<open>Claim C1 at the transaction that spends 100 into 60, 30 and a fee of 10, and at one that does not balance.\<close>

theorem siacoin_conservation_witness:
  "validTransaction examplePrimitives exampleState
     ((exampleSpend [1])\<lparr>SiacoinOutputs :=
         [\<lparr>sco_Value = 60, sco_UnlockHash = [8]\<rparr>, \<lparr>sco_Value = 30, sco_UnlockHash = [9]\<rparr>],
        MinerFees := [10]\<rparr>) = None
   \<and> validTransaction examplePrimitives exampleState
     ((exampleSpend [1])\<lparr>SiacoinOutputs := [\<lparr>sco_Value = 60, sco_UnlockHash = [8]\<rparr>],
        MinerFees := [10]\<rparr>) = Some ErrInputsNotEqualOutputs
   \<and> inputValue exampleState \<lparr>sci_ParentID = [1], sci_UnlockConditions = exampleConditions\<rparr> = 100"
  using siacoin_conservation [where P = examplePrimitives and s = exampleState and t =
     "(exampleSpend [1])\<lparr>SiacoinOutputs :=
         [\<lparr>sco_Value = 60, sco_UnlockHash = [8]\<rparr>, \<lparr>sco_Value = 30, sco_UnlockHash = [9]\<rparr>],
        MinerFees := [10]\<rparr>"]
    siacoin_conservation [where P = examplePrimitives and s = exampleState and t =
     "(exampleSpend [1])\<lparr>SiacoinOutputs := [\<lparr>sco_Value = 60, sco_UnlockHash = [8]\<rparr>],
        MinerFees := [10]\<rparr>"]
  by (simp add: example_defs validator_defs inputValue_def)

text \<open>
  Claim C2. A transaction with a storage proof is accepted only if it has no siacoin
  outputs, file contracts, terminations or siafund outputs. One that has any of them is
  rejected with the error of \<open>FollowsStorageProofRules\<close> for the first such list, whatever
  the view and whatever the later checks would say.
\<close>

theorem storage_proof_exclusivity:
  assumes "StorageProofs t \<noteq> []"
  shows "(validTransaction P s t = None \<longrightarrow>
            SiacoinOutputs t = [] \<and> FileContracts t = [] \<and>
            FileContractTerminations t = [] \<and> SiafundOutputs t = [])
       \<and> (\<not> (SiacoinOutputs t = [] \<and> FileContracts t = [] \<and>
              FileContractTerminations t = [] \<and> SiafundOutputs t = []) \<longrightarrow>
            validTransaction P s t =
              Some (if SiacoinOutputs t \<noteq> [] then ErrProofsAndSiacoinOutputs
                    else if FileContracts t \<noteq> [] then ErrProofsAndFileContracts
                    else if FileContractTerminations t \<noteq> [] then ErrProofsAndTerminations
                    else ErrProofsAndSiafundOutputs))"
  using assms by (auto simp: validTransaction_def FollowsStorageProofRules_def split: option.splits)

text \<open>Claim C2 at an accepted storage proof, and at the same proof with a siacoin output beside it.\<close>

theorem storage_proof_exclusivity_witness:
  "StorageProofs (exampleProof [5]) \<noteq> []
   \<and> validTransaction examplePrimitives exampleState (exampleProof [5]) = None
   \<and> SiacoinOutputs (exampleProof [5]) = []
   \<and> validTransaction examplePrimitives exampleState
        ((exampleProof [5])\<lparr>SiacoinOutputs := [\<lparr>sco_Value = 60, sco_UnlockHash = [8]\<rparr>]\<rparr>)
       = Some ErrProofsAndSiacoinOutputs"
  using storage_proof_exclusivity [where t = "exampleProof [5]" and P = examplePrimitives
      and s = exampleState]
    storage_proof_exclusivity [where t = "(exampleProof [5])\<lparr>SiacoinOutputs :=
       [\<lparr>sco_Value = 60, sco_UnlockHash = [8]\<rparr>]\<rparr>" and P = examplePrimitives and s = exampleState]
  by (simp add: example_defs validator_defs)

lemma validFileContract_None_iff:
  "validFileContract P s fc = None \<longleftrightarrow> spec_contractOK P s fc"
  by (auto simp: validFileContract_def spec_contractOK_def fold_add_sum_list Let_def)

lemma validFileContracts_loop_None_iff:
  "validFileContracts_loop P s fcs = None \<longleftrightarrow> (\<forall>fc \<in> set fcs. spec_contractOK P s fc)"
  by (induction fcs) (auto simp: validFileContract_None_iff [symmetric] split: option.splits)

lemma validFileContracts_loop_first:
  "\<forall>c \<in> set pre. spec_contractOK P s c \<Longrightarrow>
   validFileContracts_loop P s (pre @ fc # post) =
     (case validFileContract P s fc of Some err \<Rightarrow> Some err
      | None \<Rightarrow> validFileContracts_loop P s post)"
  by (induction pre) (auto simp: validFileContract_None_iff [symmetric] split: option.splits)

text \<open>
  Claim C5. The validator accepts only if every new contract starts after the current
  height, expires after it starts, has valid-proof outputs summing to the payout less
  the tax, and has missed-proof outputs summing to the payout. The first contract of the
  list that breaks a condition, and the first condition it breaks in this order, decide
  the error of \<open>validFileContracts\<close>, which is the validator's result once the storage-proof
  rules and the siacoin check have passed.
\<close>

theorem file_contract_rules:
  "(validTransaction P s t = None \<longrightarrow> (\<forall>fc \<in> set (FileContracts t). spec_contractOK P s fc))
   \<and> (FileContracts t = pre @ fc # post \<and> (\<forall>c \<in> set pre. spec_contractOK P s c) \<and>
        \<not> spec_contractOK P s fc \<longrightarrow>
        validFileContracts P s t =
          Some (if fc_Start fc \<le> height s then ErrContractStart
                else if fc_Expiration fc \<le> fc_Start fc then ErrContractDuration
                else if sum_list (map sco_Value (fc_ValidProofOutputs fc))
                          \<noteq> Currency_Sub P (fc_Payout fc) (Tax P (fc_Payout fc))
                     then ErrValidProofOutputs
                else ErrMissedProofOutputs) \<and>
        (FollowsStorageProofRules t = None \<and> validSiacoins P s t = None \<longrightarrow>
           validTransaction P s t = validFileContracts P s t))"
proof -
  have a: "\<forall>fc \<in> set (FileContracts t). spec_contractOK P s fc"
    if "validTransaction P s t = None"
  proof -
    from that have "validFileContracts P s t = None"
      by (simp add: validTransaction_def split: option.splits)
    then show ?thesis
      by (simp add: validFileContracts_def validFileContracts_loop_None_iff)
  qed
  have b: "validFileContracts P s t =
          Some (if fc_Start fc \<le> height s then ErrContractStart
                else if fc_Expiration fc \<le> fc_Start fc then ErrContractDuration
                else if sum_list (map sco_Value (fc_ValidProofOutputs fc))
                          \<noteq> Currency_Sub P (fc_Payout fc) (Tax P (fc_Payout fc))
                     then ErrValidProofOutputs
                else ErrMissedProofOutputs)"
    if eq: "FileContracts t = pre @ fc # post" and pre: "\<forall>c \<in> set pre. spec_contractOK P s c"
      and bad: "\<not> spec_contractOK P s fc"
  proof -
    have "validFileContracts P s t =
       (case validFileContract P s fc of Some err \<Rightarrow> Some err
        | None \<Rightarrow> validFileContracts_loop P s post)"
      by (simp add: validFileContracts_def eq validFileContracts_loop_first [OF pre])
    with bad show ?thesis
      by (auto simp: validFileContract_def spec_contractOK_def fold_add_sum_list Let_def not_less)
  qed
  have c: "validTransaction P s t = validFileContracts P s t"
    if "validFileContracts P s t \<noteq> None" "FollowsStorageProofRules t = None" "validSiacoins P s t = None"
    using that by (auto simp: validTransaction_def split: option.splits)
  from a b c show ?thesis by (metis option.distinct(1))
qed

text \<open>Claim C5 at an accepted contract, and at a payout of 1000 with tax 40 whose valid-proof outputs sum to 900.\<close>

theorem file_contract_rules_witness:
  "validTransaction examplePrimitives exampleState
     ((exampleSpend [2])\<lparr>FileContracts := [exampleContract]\<rparr>) = None
   \<and> spec_contractOK examplePrimitives exampleState exampleContract
   \<and> validTransaction examplePrimitives exampleState
     ((exampleSpend [3])\<lparr>FileContracts := [exampleContract,
         exampleContract\<lparr>fc_ValidProofOutputs := [\<lparr>sco_Value = 900, sco_UnlockHash = [8]\<rparr>]\<rparr>]\<rparr>)
       = Some ErrValidProofOutputs"
  using file_contract_rules [where P = examplePrimitives and s = exampleState and t =
      "(exampleSpend [2])\<lparr>FileContracts := [exampleContract]\<rparr>" and pre = "[]"
      and fc = exampleContract and post = "[]"]
    file_contract_rules [where P = examplePrimitives and s = exampleState and t =
      "(exampleSpend [3])\<lparr>FileContracts := [exampleContract,
         exampleContract\<lparr>fc_ValidProofOutputs := [\<lparr>sco_Value = 900, sco_UnlockHash = [8]\<rparr>]\<rparr>]\<rparr>"
      and pre = "[exampleContract]" and fc =
      "exampleContract\<lparr>fc_ValidProofOutputs := [\<lparr>sco_Value = 900, sco_UnlockHash = [8]\<rparr>]\<rparr>"
      and post = "[]"]
  by (simp add: example_defs validator_defs spec_contractOK_def)





section \<open>Properties of the contract manager's persistence\<close>

lemma usageSectors_mem:
  "k \<in> set (usageSectors u) \<longleftrightarrow>
     (\<exists>i j. i < length u \<and> j < storageFolderGranularity \<and> bit (u ! i) j \<and>
            k = i * storageFolderGranularity + j)"
  unfolding usageSectors_def by auto

lemma set_usageSectors:
  "k \<in> set (usageSectors u) \<longleftrightarrow>
     k < storageFolderGranularity * length u \<and>
     bit (u ! (k div storageFolderGranularity)) (k mod storageFolderGranularity)"
proof -
  define G where "G = storageFolderGranularity"
  have G: "0 < G" by (simp add: G_def storageFolderGranularity_def)
  have "(\<exists>i j. i < length u \<and> j < G \<and> bit (u ! i) j \<and> k = i * G + j) \<longleftrightarrow>
        k < G * length u \<and> bit (u ! (k div G)) (k mod G)"
  proof
    assume "\<exists>i j. i < length u \<and> j < G \<and> bit (u ! i) j \<and> k = i * G + j"
    then obtain i j where ij: "i < length u" "j < G" "bit (u ! i) j" "k = i * G + j"
      by blast
    from ij(1) have "Suc i \<le> length u" by simp
    then have "G * Suc i \<le> G * length u" by (rule mult_le_mono2)
    moreover from ij(2,4) have "k < G * Suc i" by (simp add: mult.commute)
    ultimately have "k < G * length u" by simp
    moreover from ij(2,4) have "k div G = i" "k mod G = j" by simp_all
    ultimately show "k < G * length u \<and> bit (u ! (k div G)) (k mod G)"
      using ij(3) by simp
  next
    assume a: "k < G * length u \<and> bit (u ! (k div G)) (k mod G)"
    then have "k div G < length u"
      by (simp add: less_mult_imp_div_less mult.commute)
    moreover have "k mod G < G" using G by simp
    moreover have "k = (k div G) * G + k mod G" by simp
    ultimately show "\<exists>i j. i < length u \<and> j < G \<and> bit (u ! i) j \<and> k = i * G + j"
      using a by blast
  qed
  then show ?thesis by (simp add: usageSectors_mem G_def)
qed

lemma loadSectorLocations_sectors_fold:
  "\<forall>k \<in> set ks. sectorMetadataDiskSize * k + 14 \<le> length bytes \<Longrightarrow>
   loadSectorLocations_sectors bytes folder ks m n =
     Inr (fold enter (map (slotEntry bytes folder) ks) m, n + of_nat (length ks))"
  by (induction ks arbitrary: m n) (simp_all add: slotEntry_def enter_def Let_def)

lemma readFullMetadata_length:
  "readFullMetadata f n = Inr bytes \<Longrightarrow> length bytes = n * sectorMetadataDiskSize"
  by (auto simp: readFullMetadata_def split: fileHandle.splits if_splits)

lemma usageSectors_in_range:
  assumes "readFullMetadata f (length u * storageFolderGranularity) = Inr bytes"
    and "k \<in> set (usageSectors u)"
  shows "sectorMetadataDiskSize * k + 14 \<le> length bytes"
proof -
  from assms(2) have "k < 64 * length u"
    by (simp add: set_usageSectors storageFolderGranularity_def)
  then show ?thesis
    using readFullMetadata_length [OF assms(1)]
    by (simp add: sectorMetadataDiskSize_def storageFolderGranularity_def)
qed

lemma fold_enter_map_of: "fold enter es m = m ++ map_of (rev es)"
proof (induction es arbitrary: m)
  case Nil
  then show ?case by simp
next
  case (Cons e es)
  have "m ++ map_of (rev (e # es)) = m ++ (map_of [e] ++ map_of (rev es))"
    by (simp only: rev.simps map_of_append)
  also have "\<dots> = (m ++ map_of [e]) ++ map_of (rev es)" by simp
  also have "m ++ map_of [e] = enter e m" by (cases e) (simp add: enter_def)
  finally show ?case using Cons.IH [of "enter e m"] by simp
qed

lemma loadSectorLocations_loop_scan:
  "loadSectorLocations_loop h sfs m =
      Inr (map (countRead h) sfs, fold enter (concat (map (folderEntries h) sfs)) m)"
proof (induction sfs arbitrary: m)
  case Nil
  then show ?case by simp
next
  case (Cons sf rest)
  show ?case
  proof (cases "readFullMetadata (sf_metadataFile sf)
             (length (h (sf_usage sf)) * storageFolderGranularity)")
    case (Inl err)
    with Cons.IH [of m] show ?thesis
      by (simp add: folderEntries_def countRead_def)
  next
    case (Inr bytes)
    have "\<forall>k \<in> set (usageSectors (h (sf_usage sf))).
            sectorMetadataDiskSize * k + 14 \<le> length bytes"
      using usageSectors_in_range [OF Inr] by blast
    from loadSectorLocations_sectors_fold [OF this]
      Cons.IH [of "fold enter (map (slotEntry bytes (sf_index sf))
                      (usageSectors (h (sf_usage sf)))) m"] Inr
    show ?thesis
      by (simp add: folderEntries_def countRead_def)
  qed
qed

lemma sorted_concat_upt:
  assumes "\<And>i. i < n \<Longrightarrow> sorted_wrt (<) (f i)"
    and "\<And>i x. i < n \<Longrightarrow> x \<in> set (f i) \<Longrightarrow> i * G \<le> x \<and> x < i * G + G"
  shows "sorted_wrt (<) (concat (map f [0..<n]))"
  using assms
proof (induction n)
  case 0
  then show ?case by simp
next
  case (Suc n)
  have a: "sorted_wrt (<) (concat (map f [0..<n]))"
    using Suc.IH Suc.prems by simp
  have b: "sorted_wrt (<) (f n)" using Suc.prems(1) by simp
  have c: "x < y" if "x \<in> set (concat (map f [0..<n]))" and "y \<in> set (f n)" for x y
  proof -
    from that(1) obtain i where i: "i < n" "x \<in> set (f i)" by auto
    then have "x < i * G + G" using Suc.prems(2) [of i x] by simp
    also have "i * G + G = Suc i * G" by simp
    also have "\<dots> \<le> n * G" using i(1) by (intro mult_le_mono1) simp
    also have "\<dots> \<le> y" using Suc.prems(2) [of n y] that(2) by simp
    finally show ?thesis .
  qed
  show ?case
    using a b c by (simp add: sorted_wrt_append)
qed

lemma sorted_usageSectors: "sorted_wrt (<) (usageSectors u)"
  unfolding usageSectors_def
proof (rule sorted_concat_upt [where G = storageFolderGranularity])
  fix i
  have "sorted_wrt (<) (filter (\<lambda>j. bit (u ! i) j) [0..<storageFolderGranularity])"
    by (rule sorted_wrt_filter) (simp add: sorted_wrt_upt)
  then show "sorted_wrt (<) (map (\<lambda>j. i * storageFolderGranularity + j)
      (filter (\<lambda>j. bit (u ! i) j) [0..<storageFolderGranularity]))"
    by (simp add: sorted_wrt_map)
next
  fix i x
  assume "x \<in> set (map (\<lambda>j. i * storageFolderGranularity + j)
      (filter (\<lambda>j. bit (u ! i) j) [0..<storageFolderGranularity]))"
  then show "i * storageFolderGranularity \<le> x \<and>
      x < i * storageFolderGranularity + storageFolderGranularity"
    by auto
qed

lemma fold_enter_last:
  "\<forall>e' \<in> set es2. fst e' \<noteq> fst e \<Longrightarrow> fold enter (es1 @ e # es2) m (fst e) = Some (snd e)"
proof (induction es2 rule: rev_induct)
  case Nil
  then show ?case by (simp add: enter_def)
next
  case (snoc x xs)
  then have a: "fold enter (es1 @ e # xs) m (fst e) = Some (snd e)" by simp
  from snoc.prems have b: "fst x \<noteq> fst e" by simp
  have "fold enter (es1 @ e # xs @ [x]) m = enter x (fold enter (es1 @ e # xs) m)"
    by simp
  then have "fold enter (es1 @ e # xs @ [x]) m (fst e) = fold enter (es1 @ e # xs) m (fst e)"
    using b by (simp only: enter_def fun_upd_apply) simp
  with a show ?case by simp
qed

lemma usageSectors_later:
  assumes "k \<in> set (usageSectors u)"
  shows "\<exists>ks1 ks2. usageSectors u = ks1 @ k # ks2 \<and> (\<forall>k' \<in> set ks2. k < k' \<and> k' \<in> set (usageSectors u))"
proof -
  from assms obtain ks1 ks2 where s: "usageSectors u = ks1 @ k # ks2"
    by (auto simp: in_set_conv_decomp)
  from sorted_usageSectors [of u] have "\<forall>k' \<in> set ks2. k < k'"
    unfolding s by (simp add: sorted_wrt_append)
  with s show ?thesis by auto
qed

lemma slot_entered_last:
  assumes sfs: "sfs = before @ sf # after"
    and rd: "readFullMetadata (sf_metadataFile sf)
               (length (h (sf_usage sf)) * storageFolderGranularity) = Inr bytes"
    and kin: "k \<in> set (usageSectors (h (sf_usage sf)))"
    and later: "\<forall>k' \<in> set (usageSectors (h (sf_usage sf))). k < k' \<longrightarrow>
        take 12 (drop (sectorMetadataDiskSize * k') bytes)
          \<noteq> take 12 (drop (sectorMetadataDiskSize * k) bytes)"
    and folders: "\<forall>e \<in> set (concat (map (folderEntries h) after)).
        fst e \<noteq> take 12 (drop (sectorMetadataDiskSize * k) bytes)"
  shows "fold enter (concat (map (folderEntries h) sfs)) m
           (take 12 (drop (sectorMetadataDiskSize * k) bytes))
         = Some \<lparr>sl_index = k, sl_storageFolder = sf_index sf,
                 sl_count = LittleEndian_Uint16
                    (take 2 (drop (sectorMetadataDiskSize * k + 12) bytes))\<rparr>"
proof -
  let ?se = "slotEntry bytes (sf_index sf)"
  from usageSectors_later [OF kin] obtain ks1 ks2 where
    s: "usageSectors (h (sf_usage sf)) = ks1 @ k # ks2"
    and l: "\<forall>k' \<in> set ks2. k < k' \<and> k' \<in> set (usageSectors (h (sf_usage sf)))" by blast
  have fe: "folderEntries h sf = map ?se ks1 @ ?se k # map ?se ks2"
    using rd s by (simp add: folderEntries_def)
  have es: "concat (map (folderEntries h) sfs)
      = (concat (map (folderEntries h) before) @ map ?se ks1) @ ?se k #
        (map ?se ks2 @ concat (map (folderEntries h) after))"
    by (simp add: sfs fe)
  have f: "fst (?se k') = take 12 (drop (sectorMetadataDiskSize * k') bytes)" for k'
    by (simp add: slotEntry_def)
  have "\<forall>e' \<in> set (map ?se ks2 @ concat (map (folderEntries h) after)). fst e' \<noteq> fst (?se k)"
  proof
    fix e' assume "e' \<in> set (map ?se ks2 @ concat (map (folderEntries h) after))"
    then consider k' where "k' \<in> set ks2" "e' = ?se k'"
      | "e' \<in> set (concat (map (folderEntries h) after))" by auto
    then show "fst e' \<noteq> fst (?se k)"
    proof cases
      case 1
      with l later show ?thesis by (simp add: f)
    next
      case 2
      with folders show ?thesis unfolding f by blast
    qed
  qed
  from fold_enter_last [OF this] show ?thesis
    unfolding es by (simp add: slotEntry_def)
qed

text \<open>
  Claim C8, amended. \<open>loadSectorLocations\<close> returns, whatever the manager. It visits the
  folders in turn. A folder whose metadata cannot be read is skipped and counted as a
  failed read; a folder that is read is counted as a successful read and its sector
  counter grows by the number of its slots in use. For every folder that is read and
  every slot \<open>k\<close> whose usage bit is set, the record at byte offset
  \<open>sectorMetadataDiskSize * k\<close> (12 bytes of sector ID, then the little-endian count) is
  entered under its ID with the folder's index, \<open>k\<close> and the count. A later entry for an
  ID replaces an earlier one: the final map is the initial map overridden by the
  entries in the order of the scan, and the entry of slot \<open>k\<close> is the one in the final
  map when no later slot of the same folder and no slot of a later folder carries the
  same ID.
\<close>

theorem sector_locations_loaded:
  "\<exists>cm'. loadSectorLocations cm = Inr cm' \<and>
     sectorLocations cm' = sectorLocations cm ++ map_of (rev (scannedEntries cm)) \<and>
     storageFolders cm' = map (countRead (heap cm)) (storageFolders cm) \<and>
     (\<forall>before sf after bytes k.
        storageFolders cm = before @ sf # after \<and>
        readFullMetadata (sf_metadataFile sf)
          (length (heap cm (sf_usage sf)) * storageFolderGranularity) = Inr bytes \<and>
        k < storageFolderGranularity * length (heap cm (sf_usage sf)) \<and>
        bit (heap cm (sf_usage sf) ! (k div storageFolderGranularity))
            (k mod storageFolderGranularity)
        \<longrightarrow>
        (take 12 (drop (sectorMetadataDiskSize * k) bytes),
         \<lparr>sl_index = k, sl_storageFolder = sf_index sf,
          sl_count = LittleEndian_Uint16
             (take 2 (drop (sectorMetadataDiskSize * k + 12) bytes))\<rparr>)
          \<in> set (scannedEntries cm) \<and>
        ((\<forall>k' \<in> set (usageSectors (heap cm (sf_usage sf))). k < k' \<longrightarrow>
             take 12 (drop (sectorMetadataDiskSize * k') bytes)
               \<noteq> take 12 (drop (sectorMetadataDiskSize * k) bytes)) \<and>
         (\<forall>e \<in> set (concat (map (folderEntries (heap cm)) after)).
             fst e \<noteq> take 12 (drop (sectorMetadataDiskSize * k) bytes))
         \<longrightarrow>
         sectorLocations cm' (take 12 (drop (sectorMetadataDiskSize * k) bytes))
           = Some \<lparr>sl_index = k, sl_storageFolder = sf_index sf,
                   sl_count = LittleEndian_Uint16
                      (take 2 (drop (sectorMetadataDiskSize * k + 12) bytes))\<rparr>))"
proof -
  let ?cm' = "cm\<lparr>storageFolders := map (countRead (heap cm)) (storageFolders cm),
                 sectorLocations := fold enter (scannedEntries cm) (sectorLocations cm)\<rparr>"
  have run: "loadSectorLocations cm = Inr ?cm'"
    by (simp add: loadSectorLocations_def loadSectorLocations_loop_scan scannedEntries_def)
  have m: "sectorLocations ?cm' = sectorLocations cm ++ map_of (rev (scannedEntries cm))"
    by (simp add: fold_enter_map_of)
  have slot: "(take 12 (drop (sectorMetadataDiskSize * k) bytes),
         \<lparr>sl_index = k, sl_storageFolder = sf_index sf,
          sl_count = LittleEndian_Uint16
             (take 2 (drop (sectorMetadataDiskSize * k + 12) bytes))\<rparr>)
          \<in> set (scannedEntries cm) \<and>
        ((\<forall>k' \<in> set (usageSectors (heap cm (sf_usage sf))). k < k' \<longrightarrow>
             take 12 (drop (sectorMetadataDiskSize * k') bytes)
               \<noteq> take 12 (drop (sectorMetadataDiskSize * k) bytes)) \<and>
         (\<forall>e \<in> set (concat (map (folderEntries (heap cm)) after)).
             fst e \<noteq> take 12 (drop (sectorMetadataDiskSize * k) bytes))
         \<longrightarrow>
         sectorLocations ?cm' (take 12 (drop (sectorMetadataDiskSize * k) bytes))
           = Some \<lparr>sl_index = k, sl_storageFolder = sf_index sf,
                   sl_count = LittleEndian_Uint16
                      (take 2 (drop (sectorMetadataDiskSize * k + 12) bytes))\<rparr>)"
    if sfs: "storageFolders cm = before @ sf # after"
      and rd: "readFullMetadata (sf_metadataFile sf)
          (length (heap cm (sf_usage sf)) * storageFolderGranularity) = Inr bytes"
      and k: "k < storageFolderGranularity * length (heap cm (sf_usage sf))"
      and used: "bit (heap cm (sf_usage sf) ! (k div storageFolderGranularity))
            (k mod storageFolderGranularity)"
    for before sf after bytes k
  proof -
    have kin: "k \<in> set (usageSectors (heap cm (sf_usage sf)))"
      using k used by (simp add: set_usageSectors)
    then have "slotEntry bytes (sf_index sf) k \<in> set (folderEntries (heap cm) sf)"
      using rd by (simp add: folderEntries_def)
    then have mem: "slotEntry bytes (sf_index sf) k \<in> set (scannedEntries cm)"
      by (simp add: scannedEntries_def sfs)
    have last: "sectorLocations ?cm' (take 12 (drop (sectorMetadataDiskSize * k) bytes))
           = Some \<lparr>sl_index = k, sl_storageFolder = sf_index sf,
                   sl_count = LittleEndian_Uint16
                      (take 2 (drop (sectorMetadataDiskSize * k + 12) bytes))\<rparr>"
      if "\<forall>k' \<in> set (usageSectors (heap cm (sf_usage sf))). k < k' \<longrightarrow>
             take 12 (drop (sectorMetadataDiskSize * k') bytes)
               \<noteq> take 12 (drop (sectorMetadataDiskSize * k) bytes)"
        and "\<forall>e \<in> set (concat (map (folderEntries (heap cm)) after)).
             fst e \<noteq> take 12 (drop (sectorMetadataDiskSize * k) bytes)"
      using slot_entered_last [OF sfs rd kin that, of "sectorLocations cm"]
      by (simp add: scannedEntries_def)
    from mem last show ?thesis by (simp add: slotEntry_def)
  qed
  from run m slot show ?thesis by (intro exI [of _ ?cm']) simp
qed

lemma example2_usageSectors: "usageSectors [push_bit 1 1 OR push_bit 42 1] = [1, 42]"
  by code_simp

lemma exampleMetadata2_read:
  "readFullMetadata (File exampleMetadata2) 64 = Inr exampleMetadata2"
  by (simp add: readFullMetadata_def exampleMetadata2_def exampleSectorID_def
      sectorMetadataDiskSize_def)

lemma exampleMetadata2_record:
  "take 12 (drop (sectorMetadataDiskSize * 42) exampleMetadata2) = exampleSectorID"
  "LittleEndian_Uint16 (take 2 (drop (sectorMetadataDiskSize * 42 + 12) exampleMetadata2)) = 3"
  "take 12 (drop sectorMetadataDiskSize exampleMetadata2) = exampleSectorID"
  "LittleEndian_Uint16 (take 2 (drop (sectorMetadataDiskSize + 12) exampleMetadata2)) = 5"
  by (simp_all add: exampleMetadata2_def exampleSectorID_def sectorMetadataDiskSize_def
      LittleEndian_Uint16_def)

text \<open>
  Claim C8, amended, at the manager with two folders: the sector ID of slots 1 and 42
  ends at slot 42 with count 3, the record of slot 1 was entered before it, and the
  unreadable folder is counted as a failed read.
\<close>

theorem sector_locations_loaded_witness:
  "\<exists>cm'. loadSectorLocations exampleManager2 = Inr cm' \<and>
      sectorLocations cm' exampleSectorID
        = Some \<lparr>sl_index = 42, sl_storageFolder = 7, sl_count = 3\<rparr> \<and>
      (exampleSectorID, \<lparr>sl_index = 1, sl_storageFolder = 7, sl_count = 5\<rparr>)
        \<in> set (scannedEntries exampleManager2) \<and>
      storageFolders cm' =
        [exampleFolder\<lparr>sf_usage := 1, sf_metadataFile := File exampleMetadata2,
                       atomicSuccessfulReads := 1, sf_sectors := 2\<rparr>,
         exampleFolder\<lparr>sf_index := 8, sf_metadataFile := FailingFile,
                       atomicFailedReads := 1\<rparr>]"
proof -
  let ?A = "exampleFolder\<lparr>sf_usage := 1, sf_metadataFile := File exampleMetadata2\<rparr>"
  let ?B = "exampleFolder\<lparr>sf_index := 8, sf_metadataFile := FailingFile\<rparr>"
  let ?cm = exampleManager2
  have sfs: "storageFolders ?cm = [] @ ?A # [?B]"
    by (simp add: exampleManager2_def)
  have u: "heap ?cm (sf_usage ?A) = [push_bit 1 1 OR push_bit 42 1]"
    by (simp add: exampleManager2_def exampleFolder_def)
  have uB: "heap ?cm (sf_usage ?B) = [push_bit 42 1]"
    by (simp add: exampleManager2_def exampleFolder_def)
  have rd: "readFullMetadata (sf_metadataFile ?A)
      (length (heap ?cm (sf_usage ?A)) * storageFolderGranularity) = Inr exampleMetadata2"
    unfolding u using exampleMetadata2_read by (simp add: storageFolderGranularity_def)
  have rdB: "readFullMetadata (sf_metadataFile ?B) n = Inl ErrReadMetadata" for n
    by (simp add: readFullMetadata_def)
  have k: "42 < storageFolderGranularity * length (heap ?cm (sf_usage ?A))"
    "1 < storageFolderGranularity * length (heap ?cm (sf_usage ?A))"
    unfolding u by (simp_all add: storageFolderGranularity_def)
  have used: "bit (heap ?cm (sf_usage ?A) ! (42 div storageFolderGranularity))
      (42 mod storageFolderGranularity)"
    "bit (heap ?cm (sf_usage ?A) ! (1 div storageFolderGranularity))
      (1 mod storageFolderGranularity)"
    unfolding u by (simp_all add: storageFolderGranularity_def bit_simps)
  have later: "\<forall>k' \<in> set (usageSectors (heap ?cm (sf_usage ?A))). 42 < k' \<longrightarrow>
      take 12 (drop (sectorMetadataDiskSize * k') exampleMetadata2)
        \<noteq> take 12 (drop (sectorMetadataDiskSize * 42) exampleMetadata2)"
    unfolding u example2_usageSectors by simp
  have folders: "\<forall>e \<in> set (concat (map (folderEntries (heap ?cm)) [?B])).
      fst e \<noteq> take 12 (drop (sectorMetadataDiskSize * 42) exampleMetadata2)"
  proof -
    have "folderEntries (heap ?cm) ?B = []"
      by (simp add: folderEntries_def readFullMetadata_def)
    then show ?thesis by simp
  qed
  have cA: "countRead (heap ?cm) ?A = ?A\<lparr>atomicSuccessfulReads := 1, sf_sectors := 2\<rparr>"
    using rd unfolding countRead_def u example2_usageSectors by (simp add: exampleFolder_def)
  have cB: "countRead (heap ?cm) ?B = ?B\<lparr>atomicFailedReads := 1\<rparr>"
    unfolding countRead_def rdB by (simp add: exampleFolder_def)
  from sector_locations_loaded [of ?cm] obtain cm' where
    run: "loadSectorLocations ?cm = Inr cm'"
    and fs: "storageFolders cm' = map (countRead (heap ?cm)) (storageFolders ?cm)"
    and slot: "\<And>before sf after bytes k.
        storageFolders ?cm = before @ sf # after \<Longrightarrow>
        readFullMetadata (sf_metadataFile sf)
          (length (heap ?cm (sf_usage sf)) * storageFolderGranularity) = Inr bytes \<Longrightarrow>
        k < storageFolderGranularity * length (heap ?cm (sf_usage sf)) \<Longrightarrow>
        bit (heap ?cm (sf_usage sf) ! (k div storageFolderGranularity))
            (k mod storageFolderGranularity) \<Longrightarrow>
        (take 12 (drop (sectorMetadataDiskSize * k) bytes),
         \<lparr>sl_index = k, sl_storageFolder = sf_index sf,
          sl_count = LittleEndian_Uint16
             (take 2 (drop (sectorMetadataDiskSize * k + 12) bytes))\<rparr>)
          \<in> set (scannedEntries ?cm) \<and>
        ((\<forall>k' \<in> set (usageSectors (heap ?cm (sf_usage sf))). k < k' \<longrightarrow>
             take 12 (drop (sectorMetadataDiskSize * k') bytes)
               \<noteq> take 12 (drop (sectorMetadataDiskSize * k) bytes)) \<and>
         (\<forall>e \<in> set (concat (map (folderEntries (heap ?cm)) after)).
             fst e \<noteq> take 12 (drop (sectorMetadataDiskSize * k) bytes))
         \<longrightarrow>
         sectorLocations cm' (take 12 (drop (sectorMetadataDiskSize * k) bytes))
           = Some \<lparr>sl_index = k, sl_storageFolder = sf_index sf,
                   sl_count = LittleEndian_Uint16
                      (take 2 (drop (sectorMetadataDiskSize * k + 12) bytes))\<rparr>)"
    by blast
  from slot [OF sfs rd k(1) used(1)] later folders
  have a: "sectorLocations cm' exampleSectorID
        = Some \<lparr>sl_index = 42, sl_storageFolder = 7, sl_count = 3\<rparr>"
    by (simp add: exampleMetadata2_record exampleFolder_def)
  from slot [OF sfs rd k(2) used(2)]
  have b: "(exampleSectorID, \<lparr>sl_index = 1, sl_storageFolder = 7, sl_count = 5\<rparr>)
        \<in> set (scannedEntries ?cm)"
    by (simp add: exampleMetadata2_record exampleFolder_def)
  have c: "storageFolders cm' =
        [?A\<lparr>atomicSuccessfulReads := 1, sf_sectors := 2\<rparr>, ?B\<lparr>atomicFailedReads := 1\<rparr>]"
    unfolding fs sfs append_Nil list.map cA cB by (rule refl)
  from run a b c show ?thesis by (intro exI [of _ cm']) simp
qed

text \<open>
  Claim C8 as stated fails for a folder whose metadata file cannot be read: slot 42 is
  in use, the folder is skipped and counted as a failed read, and nothing is entered.
\<close>

theorem unreadable_folder_not_loaded:
  "bit (heap (exampleManager (exampleFolder\<lparr>sf_metadataFile := FailingFile\<rparr>)) 0 ! 0) 42
   \<and> loadSectorLocations (exampleManager (exampleFolder\<lparr>sf_metadataFile := FailingFile\<rparr>))
       = Inr ((exampleManager (exampleFolder\<lparr>sf_metadataFile := FailingFile\<rparr>))
               \<lparr>storageFolders :=
                  [exampleFolder\<lparr>sf_metadataFile := FailingFile, atomicFailedReads := 1\<rparr>]\<rparr>)
   \<and> sectorLocations ((exampleManager (exampleFolder\<lparr>sf_metadataFile := FailingFile\<rparr>))
               \<lparr>storageFolders :=
                  [exampleFolder\<lparr>sf_metadataFile := FailingFile, atomicFailedReads := 1\<rparr>]\<rparr>)
         exampleSectorID = None"
  by (simp add: loadSectorLocations_def exampleManager_def exampleFolder_def readFullMetadata_def)

text \<open>
  Claim C4 at a folder whose slot 42 is in use and queued. The snapshot that
  \<open>savedSettings\<close> returns holds the folder's own usage slice, and the second loop has set
  the queued bit again before the function returns: bit 42 of the snapshot's bitmap is
  set, where the claim has it cleared.
\<close>

theorem saved_settings_keep_queued_bit:
  "savedSettings_of
      (exampleManager (exampleFolder\<lparr>sf_queuedSectors := [(exampleSectorID, 42)]\<rparr>))
     = Inr (\<lparr>SectorSalt = [],
             StorageFolders = [\<lparr>ssf_Index = 7, ssf_Path = ''/data'', ssf_Usage = 0\<rparr>]\<rparr>,
            exampleManager (exampleFolder\<lparr>sf_queuedSectors := [(exampleSectorID, 42)]\<rparr>))
   \<and> bit (heap (exampleManager (exampleFolder\<lparr>sf_queuedSectors := [(exampleSectorID, 42)]\<rparr>))
             0 ! 0) 42"
  by (simp add: savedSettings_of_def exampleManager_def exampleFolder_def clearUsage_def
      setUsage_def savedStorageFolder_of_def storageFolderGranularity_def)

section \<open>Properties of the transaction builder\<close>

lemmas wallet_example_defs = exampleWalletPrimitives_def exampleKey_def exampleWallet_def
  exampleBuilder_def emptyTransaction_def

lemmas wallet_defs = FundSiacoinsForOutputs_def FundSiacoins_def FundSiafunds_def
  DustThreshold_def dbGetConsensusHeight_def dbGetSpentOutput_def dbPutSpentOutput_def
  dbDeleteSpentOutput_def nextPrimarySeedAddress_def getSortedOutputs_def sortDescending_def
  unconfirmedOutputs_def checkOutput_def keysLookup_def calculateAmountFromOutputs_def
  signParentSiacoinInputs_def signParentSiafundInputs_def addSignatures_def
  FullCoveredFields_def zeroSpendableKey_def Drop_def Sign_def Sign_coveredFields_def
  indices_def

lemma checkOutput_None_iff:
  "checkOutput WP w h scoid sco dust = None \<longleftrightarrow> usableSiacoin WP w h dust (scoid, sco)"
  by (auto simp: checkOutput_def usableSiacoin_def recentlySpent_def timelocked_def
      dbGetSpentOutput_def Let_def split: option.splits)

lemma checkOutput_spent_iff:
  "checkOutput WP w h scoid sco dust = Some errSpendHeightTooHigh \<longleftrightarrow>
     reservedSiacoin WP w h dust (scoid, sco)"
  by (auto simp: checkOutput_def reservedSiacoin_def recentlySpent_def
      dbGetSpentOutput_def Let_def split: option.splits)


lemma total_Nil: "totalValue val P [] = 0"
  by (simp add: totalValue_def)

lemma total_Cons: "totalValue val P (x # xs) = (if P x then val x else 0) + totalValue val P xs"
  by (simp add: totalValue_def)

lemma fund_step_accept:
  "(f' < a \<longleftrightarrow> f + v + u < a) \<and> (f' < a \<longrightarrow> f' = f + v + u \<and> p' = p + v + u + r \<and> S) \<Longrightarrow>
   (f' < a \<longleftrightarrow> f + (v + u) < a) \<and>
   (f' < a \<longrightarrow> f' = f + (v + u) \<and> p' = p + (v + u) + r \<and> S)" for f :: nat
  by (simp only: add.assoc, blast)

lemma fund_step_skip:
  "(f' < a \<longleftrightarrow> f + u < a) \<and>
   (f' < a \<longrightarrow> f' = f + u \<and> p' = (if c then p + v else p) + u + r \<and> S) \<Longrightarrow>
   (f' < a \<longleftrightarrow> f + u < a) \<and>
   (f' < a \<longrightarrow> f' = f + u \<and> p' = p + u + ((if c then v else 0) + r) \<and> S)" for f :: nat
  by (cases c; simp only: if_True if_False add.assoc add.commute add.left_commute add_0; blast)

lemma selectOutputs_sums:
  "selectOutputs ok res val amount xs fund pot sel = (fund', pot', sel') \<Longrightarrow>
     (fund' < amount \<longleftrightarrow> fund + totalValue val ok xs < amount) \<and>
     (fund' < amount \<longrightarrow>
        fund' = fund + totalValue val ok xs \<and>
        pot' = pot + totalValue val ok xs + totalValue val (\<lambda>x. \<not> ok x \<and> res x) xs \<and>
        sel' = sel @ filter ok xs)"
proof (induction xs arbitrary: fund pot sel)
  case Nil
  then show ?case by (simp add: total_Nil)
next
  case (Cons x xs)
  show ?case
  proof (cases "ok x")
    case True
    have T: "totalValue val ok (x # xs) = val x + totalValue val ok xs"
      "totalValue val (\<lambda>x. \<not> ok x \<and> res x) (x # xs) = totalValue val (\<lambda>x. \<not> ok x \<and> res x) xs"
      "sel @ filter ok (x # xs) = (sel @ [x]) @ filter ok xs"
      using True by (simp_all add: total_Cons)
    show ?thesis
    proof (cases "fund + val x \<ge> amount")
      case g: True
      with Cons.prems True have "fund' = fund + val x" by simp
      with g have "\<not> fund' < amount" by linarith
      moreover from g have "\<not> fund + (val x + totalValue val ok xs) < amount" by linarith
      ultimately show ?thesis unfolding T by blast
    next
      case False
      with Cons.prems True have
        "selectOutputs ok res val amount xs (fund + val x) (pot + val x) (sel @ [x])
           = (fund', pot', sel')" by simp
      from Cons.IH [OF this] show ?thesis unfolding T by (rule fund_step_accept)
    qed
  next
    case False
    have T: "totalValue val ok (x # xs) = totalValue val ok xs"
      "totalValue val (\<lambda>x. \<not> ok x \<and> res x) (x # xs)
         = (if res x then val x else 0) + totalValue val (\<lambda>x. \<not> ok x \<and> res x) xs"
      "filter ok (x # xs) = filter ok xs"
      using False by (simp_all add: total_Cons)
    from Cons.prems False have
      "selectOutputs ok res val amount xs fund (if res x then pot + val x else pot) sel
         = (fund', pot', sel')" by simp
    from Cons.IH [OF this] show ?thesis unfolding T by (rule fund_step_skip)
  qed
qed

lemma siacoinValue_pair: "siacoinValue (scoid, sco) = sco_Value sco"
  by (simp add: siacoinValue_def)

lemma inputFor_pair:
  "inputFor w (scoid, sco) =
     \<lparr>sci_ParentID = scoid,
      sci_UnlockConditions = sk_UnlockConditions (keysLookup w (sco_UnlockHash sco))\<rparr>"
  by (simp add: inputFor_def)

lemma selectOutputs_acc:
  "selectOutputs ok res val amount xs fund pot sel =
     (case selectOutputs ok res val amount xs fund pot [] of (f, p, s) \<Rightarrow> (f, p, sel @ s))"
proof (induction xs arbitrary: fund pot sel)
  case Nil
  then show ?case by simp
next
  case (Cons x xs)
  show ?case
  proof (cases "ok x \<and> \<not> fund + val x \<ge> amount")
    case True
    note A = Cons.IH [of "fund + val x" "pot + val x" "sel @ [x]"]
    note B = Cons.IH [of "fund + val x" "pot + val x" "[x]"]
    from True show ?thesis
      by (simp add: A B split: prod.splits)
  next
    case False
    note A = Cons.IH [of fund "if res x then pot + val x else pot" sel]
    from False show ?thesis
      by (auto simp: A split: prod.splits)
  qed
qed


lemma FundSiacoinsForOutputs_loop_select:
  "FundSiacoinsForOutputs_loop WP w h dust amount so fund pot spent tb =
     (case selectOutputs (usableSiacoin WP w h dust) (reservedSiacoin WP w h dust) siacoinValue
             amount so fund pot [] of
        (fund', pot', sel) \<Rightarrow>
          (fund', pot', spent @ map fst sel,
           tb\<lparr>siacoinInputs := siacoinInputs tb @
                  [length (SiacoinInputs (transaction tb)) ..<
                     length (SiacoinInputs (transaction tb)) + length sel],
               transaction := (transaction tb)
                 \<lparr>SiacoinInputs := SiacoinInputs (transaction tb) @ map (inputFor w) sel\<rparr>\<rparr>))"
proof (induction so arbitrary: fund pot spent tb)
  case Nil
  then show ?case by simp
next
  case (Cons x so)
  obtain scoid sco where x: "x = (scoid, sco)" by (cases x)
  let ?ok = "usableSiacoin WP w h dust" and ?res = "reservedSiacoin WP w h dust"
  show ?case
  proof (cases "checkOutput WP w h scoid sco dust")
    case None
    then have u: "?ok (scoid, sco)" by (simp add: checkOutput_None_iff)
    show ?thesis
    proof (cases "fund + sco_Value sco \<ge> amount")
      case True
      with None u show ?thesis
        by (simp add: x siacoinValue_pair inputFor_pair Let_def)
    next
      case False
      note acc = selectOutputs_acc [of ?ok ?res siacoinValue amount so
          "fund + sco_Value sco" "pot + sco_Value sco" "[(scoid, sco)]"]
      from False None u show ?thesis
        unfolding x
        by (simp add: siacoinValue_pair Let_def Cons.IH acc inputFor_pair upt_conv_Cons
            split: prod.splits del: upt_Suc)
    qed
  next
    case (Some err)
    then have u: "\<not> ?ok (scoid, sco)"
      by (simp add: checkOutput_None_iff [symmetric])
    have r: "?res (scoid, sco) \<longleftrightarrow> err = errSpendHeightTooHigh"
      using Some by (auto simp: checkOutput_spent_iff [symmetric])
    from Some u r show ?thesis
      unfolding x by (simp add: siacoinValue_pair Cons.IH)
  qed
qed

lemma markSpent_None: "fst (markSpent w oids h) = None"
  by (induction oids arbitrary: w) (simp_all add: dbPutSpentOutput_def)

lemma DustThreshold_cases:
  obtains msg where "DustThreshold w = Inl (ExternalError msg)"
  | dust where "DustThreshold w = Inr dust" "dustThreshold w = Inr dust"
  by (cases "dustThreshold w") (auto simp: DustThreshold_def)

lemma dbGetConsensusHeight_cases:
  obtains msg where "dbGetConsensusHeight w = Inl (ExternalError msg)"
  | h where "dbGetConsensusHeight w = Inr h" "db_ConsensusHeight w = Some h"
  by (cases "db_ConsensusHeight w") (auto simp: dbGetConsensusHeight_def)

lemma dbForEachSiacoinOutput_cases:
  obtains msg where "dbForEachSiacoinOutput entries = Inl (ExternalError msg)"
  | so where "dbForEachSiacoinOutput entries = Inr so"
proof (induction entries arbitrary: thesis rule: dbForEachSiacoinOutput.induct)
  case 1
  then show ?case by simp
next
  case (2 scoid sco rest)
  show ?case
  proof (rule "2.IH")
    fix msg assume "dbForEachSiacoinOutput rest = Inl (ExternalError msg)"
    then show thesis using "2.prems"(1) by simp
  next
    fix so assume "dbForEachSiacoinOutput rest = Inr so"
    then show thesis using "2.prems"(2) by simp
  qed
qed simp_all

lemma getSortedOutputs_cases:
  obtains msg where "getSortedOutputs WP w = Inl (ExternalError msg)"
  | confirmed where "dbForEachSiacoinOutput (db_SiacoinOutputs w) = Inr confirmed"
      "getSortedOutputs WP w = Inr (sortDescending (confirmed @ unconfirmedOutputs WP w))"
  by (rule dbForEachSiacoinOutput_cases [of "db_SiacoinOutputs w"])
     (auto simp: getSortedOutputs_def)

lemma filter_checkOutput:
  "filter (\<lambda>(scoid, sco). checkOutput WP w h scoid sco dust = None) so
     = filter (usableSiacoin WP w h dust) so"
  by (rule filter_cong) (auto simp: checkOutput_None_iff)

lemma case_markSpent_fst:
  "fst (case markSpent w oids h of (res, w2) \<Rightarrow> (res, tb, w2)) = None"
  using markSpent_None [of w oids h] by (cases "markSpent w oids h") simp

lemma FundSiacoinsForOutputs_fst:
  assumes "DustThreshold w = Inr dust" and "dbGetConsensusHeight w = Inr h"
    and "getSortedOutputs WP w = Inr so"
    and "selectOutputs (usableSiacoin WP w h dust) (reservedSiacoin WP w h dust) siacoinValue
           (calculateAmountFromOutputs outputs fee) so 0 0 [] = (f, p, sel)"
  shows "fst (FundSiacoinsForOutputs WP outputs fee tb w) =
     (if p \<ge> calculateAmountFromOutputs outputs fee \<and> f < calculateAmountFromOutputs outputs fee
      then Some ErrIncompleteTransactions
      else if f < calculateAmountFromOutputs outputs fee then Some ErrLowBalance
      else None)"
  using assms
  by (simp add: FundSiacoinsForOutputs_def Let_def FundSiacoinsForOutputs_loop_select
      nextPrimarySeedAddress_def case_markSpent_fst)

lemma FundSiacoinsForOutputs_failed:
  assumes "DustThreshold w = Inr dust" and "dbGetConsensusHeight w = Inr h"
    and "getSortedOutputs WP w = Inr so"
    and "selectOutputs (usableSiacoin WP w h dust) (reservedSiacoin WP w h dust) siacoinValue
           (calculateAmountFromOutputs outputs fee) so 0 0 [] = (f, p, sel)"
    and "f < calculateAmountFromOutputs outputs fee"
  shows "snd (FundSiacoinsForOutputs WP outputs fee tb w) =
     (tb\<lparr>siacoinInputs := siacoinInputs tb @
            [length (SiacoinInputs (transaction tb)) ..<
               length (SiacoinInputs (transaction tb)) + length sel],
         transaction := (transaction tb)
           \<lparr>SiacoinInputs := SiacoinInputs (transaction tb) @ map (inputFor w) sel,
            MinerFees := MinerFees (transaction tb) @ (if fee > 0 then [fee] else [])\<rparr>\<rparr>, w)"
  using assms
  by (simp add: FundSiacoinsForOutputs_def Let_def FundSiacoinsForOutputs_loop_select)




























text \<open>
  Claim C10. \<open>FundSiacoinsForOutputs\<close> is not atomic on failure. When it returns
  \<open>ErrLowBalance\<close> or \<open>ErrIncompleteTransactions\<close>, the dust threshold, the height and the
  sorted outputs were read without error, and the builder it leaves behind is the
  builder it was given with the fee (when positive) appended to the miner fees and with
  one input appended, in the order of the scan, for every output that passes
  \<open>checkOutput\<close>; their indices are appended to \<open>siacoinInputs\<close>. Nothing is rolled back, and
  the wallet is unchanged (no output is marked as spent).
\<close>

theorem FundSiacoinsForOutputs_keeps_partial_work:
  assumes run: "FundSiacoinsForOutputs WP outputs fee tb w = (Some err, tb', w')"
    and err: "err = ErrLowBalance \<or> err = ErrIncompleteTransactions"
  shows "\<exists>dust h so.
      DustThreshold w = Inr dust \<and> dbGetConsensusHeight w = Inr h \<and>
      getSortedOutputs WP w = Inr so \<and> w' = w \<and>
      tb' = tb
        \<lparr>siacoinInputs := siacoinInputs tb @
            [length (SiacoinInputs (transaction tb)) ..<
               length (SiacoinInputs (transaction tb)) +
               length (filter (\<lambda>(scoid, sco). checkOutput WP w h scoid sco dust = None) so)],
         transaction := (transaction tb)
           \<lparr>SiacoinInputs := SiacoinInputs (transaction tb) @
               map (inputFor w)
                 (filter (\<lambda>(scoid, sco). checkOutput WP w h scoid sco dust = None) so),
            MinerFees := MinerFees (transaction tb) @ (if fee > 0 then [fee] else [])\<rparr>\<rparr>"
proof -
  from err have ne: "err \<noteq> ExternalError msg" for msg by auto
  obtain dust where d: "DustThreshold w = Inr dust"
  proof (rule DustThreshold_cases [of w])
    fix msg assume "DustThreshold w = Inl (ExternalError msg)"
    with run have "err = ExternalError msg" by (simp add: FundSiacoinsForOutputs_def)
    with ne [of msg] show thesis by blast
  qed
  obtain h where h: "dbGetConsensusHeight w = Inr h"
  proof (rule dbGetConsensusHeight_cases [of w])
    fix msg assume "dbGetConsensusHeight w = Inl (ExternalError msg)"
    with run d have "err = ExternalError msg" by (simp add: FundSiacoinsForOutputs_def)
    with ne [of msg] show thesis by blast
  qed
  obtain so where so: "getSortedOutputs WP w = Inr so"
  proof (rule getSortedOutputs_cases [of WP w])
    fix msg assume "getSortedOutputs WP w = Inl (ExternalError msg)"
    with run d h have "err = ExternalError msg"
      by (simp add: FundSiacoinsForOutputs_def Let_def)
    with ne [of msg] show thesis by blast
  qed
  let ?amount = "calculateAmountFromOutputs outputs fee"
  let ?ok = "usableSiacoin WP w h dust"
  obtain f p sel where sel:
    "selectOutputs ?ok (reservedSiacoin WP w h dust) siacoinValue ?amount so 0 0 [] = (f, p, sel)"
    by (cases "selectOutputs ?ok (reservedSiacoin WP w h dust) siacoinValue ?amount so 0 0 []")
  have low: "f < ?amount"
  proof (rule ccontr)
    assume "\<not> f < ?amount"
    with FundSiacoinsForOutputs_fst [OF d h so sel, of tb] run show False by simp
  qed
  with selectOutputs_sums [OF sel] have s: "sel = filter ?ok so" by simp
  from FundSiacoinsForOutputs_failed [OF d h so sel low, of tb] run
  have "w' = w" and
    "tb' = tb
        \<lparr>siacoinInputs := siacoinInputs tb @
            [length (SiacoinInputs (transaction tb)) ..<
               length (SiacoinInputs (transaction tb)) + length sel],
         transaction := (transaction tb)
           \<lparr>SiacoinInputs := SiacoinInputs (transaction tb) @ map (inputFor w) sel,
            MinerFees := MinerFees (transaction tb) @ (if fee > 0 then [fee] else [])\<rparr>\<rparr>"
    by simp_all
  with d h so s show ?thesis
    by (simp add: filter_checkOutput)
qed

text \<open>Claim C10 at a wallet whose only output is 100, asked for 100 and a fee of 10.\<close>

theorem FundSiacoinsForOutputs_keeps_partial_work_witness:
  "FundSiacoinsForOutputs exampleWalletPrimitives
      [\<lparr>sco_Value = 100, sco_UnlockHash = [8]\<rparr>] 10 exampleBuilder
      (exampleWallet (exampleKey 0 [[7]]) Map.empty)
   = (Some ErrLowBalance,
      exampleBuilder\<lparr>siacoinInputs := [0],
        transaction := emptyTransaction
          \<lparr>SiacoinInputs := [\<lparr>sci_ParentID = [1],
               sci_UnlockConditions = sk_UnlockConditions (exampleKey 0 [[7]])\<rparr>],
           MinerFees := [10]\<rparr>\<rparr>,
      exampleWallet (exampleKey 0 [[7]]) Map.empty)
   \<and> (\<exists>dust h so.
        DustThreshold (exampleWallet (exampleKey 0 [[7]]) Map.empty) = Inr dust \<and>
        dbGetConsensusHeight (exampleWallet (exampleKey 0 [[7]]) Map.empty) = Inr h \<and>
        getSortedOutputs exampleWalletPrimitives (exampleWallet (exampleKey 0 [[7]]) Map.empty)
          = Inr so \<and>
        filter (\<lambda>(scoid, sco). checkOutput exampleWalletPrimitives
                  (exampleWallet (exampleKey 0 [[7]]) Map.empty) h scoid sco dust = None) so
          = [([1], \<lparr>sco_Value = 100, sco_UnlockHash = [7]\<rparr>)])"
proof -
  have run: "FundSiacoinsForOutputs exampleWalletPrimitives
      [\<lparr>sco_Value = 100, sco_UnlockHash = [8]\<rparr>] 10 exampleBuilder
      (exampleWallet (exampleKey 0 [[7]]) Map.empty)
   = (Some ErrLowBalance,
      exampleBuilder\<lparr>siacoinInputs := [0],
        transaction := emptyTransaction
          \<lparr>SiacoinInputs := [\<lparr>sci_ParentID = [1],
               sci_UnlockConditions = sk_UnlockConditions (exampleKey 0 [[7]])\<rparr>],
           MinerFees := [10]\<rparr>\<rparr>,
      exampleWallet (exampleKey 0 [[7]]) Map.empty)"
    by (simp add: wallet_defs wallet_example_defs Let_def)
  from FundSiacoinsForOutputs_keeps_partial_work [OF run] obtain dust h so where
    "DustThreshold (exampleWallet (exampleKey 0 [[7]]) Map.empty) = Inr dust"
    "dbGetConsensusHeight (exampleWallet (exampleKey 0 [[7]]) Map.empty) = Inr h"
    "getSortedOutputs exampleWalletPrimitives (exampleWallet (exampleKey 0 [[7]]) Map.empty)
          = Inr so"
    by auto
  then show ?thesis
    using run
    by (auto simp: wallet_defs wallet_example_defs Let_def)
qed




text \<open>
  Claim C3 at a builder funded by \<open>FundSiafunds\<close>. The call marks the selected siafund
  output as spent at height 10; \<open>Drop\<close> resets the builder but walks only the siacoin
  inputs, so the spent entry of the siafund output is still there afterwards.
\<close>

theorem drop_keeps_siafund_reservation:
  "case FundSiafunds exampleWalletPrimitives 5 exampleBuilder
      (exampleWallet (exampleKey 0 [[7]]) Map.empty) of
     (res, tb1, w1) \<Rightarrow>
       res = None \<and> db_SpentOutputs w1 [2] = Some 10 \<and>
       (case Drop tb1 w1 of
          (tb2, w2) \<Rightarrow> db_SpentOutputs w2 [2] = Some 10 \<and> tb2 = exampleBuilder)"
  by (simp add: wallet_defs wallet_example_defs Let_def)

text \<open>
  Claim C7 at a wallet whose key for the funded input holds no secret key for its
  public key. \<open>Sign\<close> succeeds and returns a transaction set without any signature, yet
  it has set \<open>signed\<close>: the next \<open>Sign\<close> fails with \<open>errBuilderAlreadySigned\<close>.
\<close>

theorem sign_without_signature_poisons:
  "case FundSiacoinsForOutputs exampleWalletPrimitives
      [\<lparr>sco_Value = 60, sco_UnlockHash = [8]\<rparr>] 10 exampleBuilder
      (exampleWallet (exampleKey 0 [[9]]) Map.empty) of
     (res, tb1, w1) \<Rightarrow>
       res = None \<and>
       (case Sign exampleWalletPrimitives True tb1 w1 of
          (signed1, tb2) \<Rightarrow>
            isl signed1 = False \<and>
            map TransactionSignatures (projr signed1) = [[]] \<and>
            signed_tb tb2 \<and>
            fst (Sign exampleWalletPrimitives True tb2 w1) = Inl errBuilderAlreadySigned)"
  by (simp add: wallet_defs wallet_example_defs Let_def)

end
